theory Spec2Isabelle
  imports Complex_Main "HOL-Library.Monad_Syntax"
begin

section \<open>Numbers\<close>

text \<open>
  The program computes with JavaScript numbers, which are IEEE 754 doubles. The theory has
  two models of them. In the first one, of this section, a number is an exact real:
  nothing is rounded and nothing overflows or underflows. A JavaScript operation that
  yields a value that is not a finite number although its operands are finite (division
  by zero, the logarithm of a non-positive number, the square root of a negative number,
  reading an array past its end) yields \<open>None\<close> here, and so does every computation that
  uses that value. A result \<open>Some v\<close> therefore says that every value used on the way was
  a finite number and that the code, computing exactly, returns \<open>v\<close>. The second model,
  of the section on double arithmetic, rounds the result of every operation as the
  program does; the statistics functions are given in both.
\<close>

definition js_div :: "real \<Rightarrow> real \<Rightarrow> real option" where
  \<comment> \<open>\<open>a / b\<close>: an infinity or NaN when \<open>b\<close> is zero.\<close>
  "js_div a b = (if b = 0 then None else Some (a / b))"

definition Math_sqrt :: "real \<Rightarrow> real option" where
  \<comment> \<open>\<open>Math.sqrt(a)\<close>: NaN when \<open>a\<close> is negative.\<close>
  "Math_sqrt a = (if a < 0 then None else Some (sqrt a))"

definition Math_log :: "real \<Rightarrow> real option" where
  \<comment> \<open>\<open>Math.log(a)\<close>: \<open>-Infinity\<close> at zero, NaN below.\<close>
  "Math_log a = (if a \<le> 0 then None else Some (ln a))"

definition js_nth :: "real list \<Rightarrow> nat \<Rightarrow> real option" where
  \<comment> \<open>\<open>a[i]\<close>: \<open>undefined\<close> past the end, which arithmetic turns into NaN.\<close>
  "js_nth a i = (if i < length a then Some (a ! i) else None)"

definition js_arith :: "(real \<Rightarrow> real \<Rightarrow> real) \<Rightarrow> real option \<Rightarrow> real option \<Rightarrow> real option" where
  \<comment> \<open>\<open>+\<close>, \<open>-\<close> or \<open>*\<close> on operands that may be NaN: NaN as soon as one of them is.\<close>
  "js_arith f a b = do { u \<leftarrow> a; v \<leftarrow> b; Some (f u v) }"

definition js_not :: "real option \<Rightarrow> bool" where
  \<comment> \<open>\<open>!a\<close> for a number that is finite or NaN: true of 0 and of NaN.\<close>
  "js_not a = (a = Some 0 \<or> a = None)"

section \<open>The sample generator\<close>

text \<open>
  \<open>Math.random()\<close> is the environment's: the model reads its successive results from a
  tape of draws, each in \<open>[0, 1)\<close>. A loop that has not left when the tape ends has not
  returned within the draws given, which is \<open>None\<close>.
\<close>

definition wf_tape :: "real list \<Rightarrow> bool" where
  "wf_tape tape = list_all (\<lambda>u. 0 \<le> u \<and> u < 1) tape"

text \<open>\<open>let u = 0; while (u === 0) u = Math.random();\<close>\<close>

fun draw_nonzero :: "real list \<Rightarrow> (real \<times> real list) option" where
  "draw_nonzero [] = None"
| "draw_nonzero (r # tape) = (if r = 0 then draw_nonzero tape else Some (r, tape))"

definition randn :: "real list \<Rightarrow> (real \<times> real list) option" where
  "randn tape =
     do {
       (u, tape1) \<leftarrow> draw_nonzero tape;
       (v, tape2) \<leftarrow> draw_nonzero tape1;
       l \<leftarrow> Math_log u;
       r \<leftarrow> Math_sqrt (- 2 * l);
       Some (r * cos (2 * pi * v), tape2)
     }"

text \<open>The first loop of \<open>generateCorrelatedData\<close>: \<open>n\<close> pairs of raw values.\<close>

function raw_loop ::
  "real \<Rightarrow> int \<Rightarrow> nat \<Rightarrow> real list \<times> real list \<Rightarrow> real list
     \<Rightarrow> ((real list \<times> real list) \<times> real list) option" where
  "raw_loop corr n i (xRaw, yRaw) tape =
     (if int i < n then
        do {
          (z1, tape1) \<leftarrow> randn tape;
          (z2, tape2) \<leftarrow> randn tape1;
          let xVal = z1;
          s \<leftarrow> Math_sqrt (1 - corr * corr);
          let yVal = corr * z1 + s * z2;
          raw_loop corr n (Suc i) (xRaw @ [xVal], yRaw @ [yVal]) tape2
        }
      else Some ((xRaw, yRaw), tape))"
  by pat_completeness auto
termination
  by (relation "measure (\<lambda>(corr, n, i, raw, tape). nat (n - int i))") auto

declare raw_loop.simps [simp del]

definition Math_min :: "real list \<Rightarrow> real option" where
  \<comment> \<open>\<open>Math.min(...a)\<close>: \<open>Infinity\<close> for the empty array.\<close>
  "Math_min a = (if a = [] then None else Some (Min (set a)))"

definition Math_max :: "real list \<Rightarrow> real option" where
  \<comment> \<open>\<open>Math.max(...a)\<close>: \<open>-Infinity\<close> for the empty array.\<close>
  "Math_max a = (if a = [] then None else Some (Max (set a)))"

definition raw_range :: "real option \<Rightarrow> real option \<Rightarrow> real option" where
  \<comment> \<open>\<open>max - min || 1\<close>; on the empty array the difference is \<open>-Infinity\<close>, which is
    truthy and stays.\<close>
  "raw_range maxRaw minRaw =
     do {
       mx \<leftarrow> maxRaw;
       mn \<leftarrow> minRaw;
       Some (if mx - mn = 0 then 1 else mx - mn)
     }"

definition scaled :: "real list \<Rightarrow> nat \<Rightarrow> real option \<Rightarrow> real option \<Rightarrow> real \<Rightarrow> real \<Rightarrow> real option" where
  \<comment> \<open>\<open>xMin + ((raw[i] - minRaw) / rangeRaw) * (xMax - xMin)\<close>\<close>
  "scaled raw i minRaw rangeRaw xMin xMax =
     do {
       v \<leftarrow> js_nth raw i;
       mn \<leftarrow> minRaw;
       rg \<leftarrow> rangeRaw;
       q \<leftarrow> js_div (v - mn) rg;
       Some (xMin + q * (xMax - xMin))
     }"

record point =
  x :: real
  y :: real

text \<open>The second loop of \<open>generateCorrelatedData\<close>: rescaling.\<close>

function scale_loop ::
  "real list \<Rightarrow> real list \<Rightarrow> real option \<Rightarrow> real option \<Rightarrow> real option \<Rightarrow> real option
     \<Rightarrow> real \<Rightarrow> real \<Rightarrow> int \<Rightarrow> nat \<Rightarrow> point list \<Rightarrow> point list option" where
  "scale_loop xRaw yRaw minXraw rangeXraw minYraw rangeYraw xMin xMax n i data =
     (if int i < n then
        do {
          scaledX \<leftarrow> scaled xRaw i minXraw rangeXraw xMin xMax;
          scaledY \<leftarrow> scaled yRaw i minYraw rangeYraw xMin xMax;
          scale_loop xRaw yRaw minXraw rangeXraw minYraw rangeYraw xMin xMax n (Suc i)
            (data @ [\<lparr>x = scaledX, y = scaledY\<rparr>])
        }
      else Some data)"
  by pat_completeness auto
termination
  by (relation "measure (\<lambda>(xRaw, yRaw, minXraw, rangeXraw, minYraw, rangeYraw, xMin, xMax, n, i, data).
        nat (n - int i))") auto

declare scale_loop.simps [simp del]

text \<open>
  \<open>generateCorrelatedData(corr, n, xMin, xMax)\<close>, with the tape of draws it reads and the
  rest of the tape it leaves.
\<close>

definition generateCorrelatedData ::
  "real \<Rightarrow> int \<Rightarrow> real \<Rightarrow> real \<Rightarrow> real list \<Rightarrow> (point list \<times> real list) option" where
  "generateCorrelatedData corr n xMin xMax tape =
     do {
       ((xRaw, yRaw), tape') \<leftarrow> raw_loop corr n 0 ([], []) tape;
       let minXraw = Math_min xRaw;
       let maxXraw = Math_max xRaw;
       let rangeXraw = raw_range maxXraw minXraw;
       let minYraw = Math_min yRaw;
       let maxYraw = Math_max yRaw;
       let rangeYraw = raw_range maxYraw minYraw;
       data \<leftarrow> scale_loop xRaw yRaw minXraw rangeXraw minYraw rangeYraw xMin xMax n 0 [];
       Some (data, tape')
     }"

section \<open>Statistics\<close>

text \<open>
  The object returned by \<open>computeRegressionLine\<close>. The repository holds four versions of
  the application: src/src/App.jsx, src/src/App\_old.jsx, src/unnamed/part\_000 and
  src/unnamed/part\_001. Two of them return \<open>{slope, intercept}\<close> and two return
  \<open>{slope, intercept, meanY}\<close>; \<open>meanY = None\<close> is the object without a \<open>meanY\<close>
  property.
\<close>

record regression =
  slope :: real
  intercept :: real
  meanY :: "real option"

subsection \<open>computeCorrelation\<close>

text \<open>
  The \<open>for (let i = 0; i < n; i++)\<close> loop of \<open>computeCorrelation\<close>. When \<open>yVals\<close> is
  shorter than \<open>xVals\<close> the loop reads \<open>undefined\<close> and the sums that use it are NaN;
  the three sums are therefore numbers that may be NaN.
\<close>

function corr_loop ::
  "real list \<Rightarrow> real list \<Rightarrow> real \<Rightarrow> real \<Rightarrow> nat \<Rightarrow> nat
     \<Rightarrow> real option \<times> real option \<times> real option
     \<Rightarrow> real option \<times> real option \<times> real option" where
  "corr_loop xVals yVals meanX meanY' n i (numerator, denomX, denomY) =
     (if i < n then
        let dx = js_arith (\<lambda>a b. a - b) (js_nth xVals i) (Some meanX);
            dy = js_arith (\<lambda>a b. a - b) (js_nth yVals i) (Some meanY')
        in corr_loop xVals yVals meanX meanY' n (Suc i)
            (js_arith (\<lambda>a b. a + b) numerator (js_arith (\<lambda>a b. a * b) dx dy),
             js_arith (\<lambda>a b. a + b) denomX (js_arith (\<lambda>a b. a * b) dx dx),
             js_arith (\<lambda>a b. a + b) denomY (js_arith (\<lambda>a b. a * b) dy dy))
      else (numerator, denomX, denomY))"
  by pat_completeness auto
termination
  by (relation "measure (\<lambda>(xVals, yVals, meanX, meanY', n, i, acc). n - i)") auto

declare corr_loop.simps [simp del]

text \<open>\<open>computeCorrelation\<close> of src/src/App.jsx, src/src/App\_old.jsx and
  src/unnamed/part\_001.\<close>

definition computeCorrelation :: "real list \<Rightarrow> real list \<Rightarrow> real option" where
  "computeCorrelation xVals yVals =
     (let n = length xVals in
      if n \<le> 1 then Some 0
      else do {
        meanX \<leftarrow> js_div (foldl (\<lambda>a b. a + b) 0 xVals) (real n);
        meanY' \<leftarrow> js_div (foldl (\<lambda>a b. a + b) 0 yVals) (real n);
        (numerator, denomX, denomY) \<leftarrow>
          Some (corr_loop xVals yVals meanX meanY' n 0 (Some 0, Some 0, Some 0));
        if denomX = Some 0 \<or> denomY = Some 0 then Some 0
        else do {
          r \<leftarrow> js_arith (\<lambda>a b. a * b) denomX denomY \<bind> Math_sqrt;
          numerator' \<leftarrow> numerator;
          js_div numerator' r
        }
      })"

text \<open>\<open>computeCorrelation\<close> of src/unnamed/part\_000: the degenerate case is tested with
  \<open>!denomX || !denomY\<close>.\<close>

definition computeCorrelation_part000 :: "real list \<Rightarrow> real list \<Rightarrow> real option" where
  "computeCorrelation_part000 xVals yVals =
     (let n = length xVals in
      if n \<le> 1 then Some 0
      else do {
        meanX \<leftarrow> js_div (foldl (\<lambda>a b. a + b) 0 xVals) (real n);
        meanY' \<leftarrow> js_div (foldl (\<lambda>a b. a + b) 0 yVals) (real n);
        (numerator, denomX, denomY) \<leftarrow>
          Some (corr_loop xVals yVals meanX meanY' n 0 (Some 0, Some 0, Some 0));
        if js_not denomX \<or> js_not denomY then Some 0
        else do {
          r \<leftarrow> js_arith (\<lambda>a b. a * b) denomX denomY \<bind> Math_sqrt;
          numerator' \<leftarrow> numerator;
          js_div numerator' r
        }
      })"

subsection \<open>computeRegressionLine\<close>

text \<open>The body of the \<open>data.forEach\<close> of \<open>computeRegressionLine\<close>.\<close>

definition regress_step :: "real \<Rightarrow> real \<Rightarrow> point \<Rightarrow> real \<times> real \<Rightarrow> real \<times> real" where
  "regress_step meanX meanY' d = (\<lambda>(numerator, denominator).
     (numerator + (x d - meanX) * (y d - meanY'),
      denominator + (x d - meanX) * (x d - meanX)))"

text \<open>\<open>computeRegressionLine\<close> of src/src/App.jsx and src/unnamed/part\_001.\<close>

definition computeRegressionLine :: "point list \<Rightarrow> regression option" where
  "computeRegressionLine data =
     (let n = length data in
      if n = 0 then Some \<lparr>slope = 0, intercept = 0, meanY = None\<rparr>
      else do {
        meanX \<leftarrow> js_div (foldl (\<lambda>acc d. acc + x d) 0 data) (real n);
        meanY' \<leftarrow> js_div (foldl (\<lambda>acc d. acc + y d) 0 data) (real n);
        (numerator, denominator) \<leftarrow> Some (fold (regress_step meanX meanY') data (0, 0));
        if denominator = 0 then Some \<lparr>slope = 0, intercept = meanY', meanY = None\<rparr>
        else do {
          slope' \<leftarrow> js_div numerator denominator;
          Some \<lparr>slope = slope', intercept = meanY' - slope' * meanX, meanY = None\<rparr>
        }
      })"

text \<open>\<open>computeRegressionLine\<close> of src/src/App\_old.jsx and src/unnamed/part\_000: the same
  computation, the object carries \<open>meanY\<close>.\<close>

definition computeRegressionLine_old :: "point list \<Rightarrow> regression option" where
  "computeRegressionLine_old data =
     (let n = length data in
      if n = 0 then Some \<lparr>slope = 0, intercept = 0, meanY = Some 0\<rparr>
      else do {
        sumX \<leftarrow> Some (foldl (\<lambda>acc d. acc + x d) 0 data);
        sumY \<leftarrow> Some (foldl (\<lambda>acc d. acc + y d) 0 data);
        meanX \<leftarrow> js_div sumX (real n);
        meanY' \<leftarrow> js_div sumY (real n);
        (numerator, denominator) \<leftarrow> Some (fold (regress_step meanX meanY') data (0, 0));
        if denominator = 0 then Some \<lparr>slope = 0, intercept = meanY', meanY = Some meanY'\<rparr>
        else do {
          slope' \<leftarrow> js_div numerator denominator;
          Some \<lparr>slope = slope', intercept = meanY' - slope' * meanX, meanY = Some meanY'\<rparr>
        }
      })"

text \<open>The \<open>meanY\<close> memo of the component in src/src/App.jsx.\<close>

definition meanY_memo :: "point list \<Rightarrow> real option" where
  "meanY_memo scatterData =
     (if length scatterData = 0 then Some 0
      else js_div (foldl (\<lambda>sum d. sum + y d) 0 scatterData) (real (length scatterData)))"

section \<open>The component\<close>

text \<open>
  The state of the component, one field per \<open>useState\<close>. The sample \<open>scatterData\<close> is
  memoised on \<open>[corr, sampleSize]\<close>; the functions below take it as an argument.
\<close>

record state =
  corr :: real
  sampleSize :: int
  fitLine :: bool
  showDistances :: bool

text \<open>
  The three handlers. \<open>CorrChange v\<close> is the \<open>onChange\<close> of the correlation slider with
  \<open>v = parseFloat(e.target.value)\<close>, \<open>SizeChange v\<close> that of the sample-size slider with
  \<open>v = parseInt(e.target.value, 10)\<close>, \<open>FitClick\<close> the \<open>onClick\<close> of the button.
\<close>

datatype event = CorrChange real | SizeChange int | FitClick

fun handle :: "event \<Rightarrow> state \<Rightarrow> state" where
  "handle (CorrChange v) s = s\<lparr>fitLine := False, showDistances := False, corr := v\<rparr>"
| "handle (SizeChange v) s = s\<lparr>fitLine := False, showDistances := False, sampleSize := v\<rparr>"
| "handle FitClick s = s\<lparr>fitLine := True, showDistances := True\<rparr>"

definition run :: "event list \<Rightarrow> state \<Rightarrow> state" where
  "run es s = fold handle es s"

text \<open>The initial state: \<open>useState(0)\<close>, \<open>useState(200)\<close> (\<open>useState(30)\<close> in
  src/unnamed/part\_000 and src/unnamed/part\_001), \<open>useState(false)\<close> twice.\<close>

definition initial :: "int \<Rightarrow> state" where
  "initial n0 = \<lparr>corr = 0, sampleSize = n0, fitLine = False, showDistances = False\<rparr>"

text \<open>What the component derives from its state and the sample at each render.\<close>

record view =
  actualCorrelation :: real
  displayedSlope :: real
  displayedIntercept :: real
  linePoints :: "point list"
  residualLines :: "point list list"
  residualsDrawn :: bool

definition residual :: "real \<Rightarrow> real \<Rightarrow> point \<Rightarrow> point list" where
  \<comment> \<open>the function mapped over \<open>scatterData\<close> to build \<open>residualLines\<close>\<close>
  "residual slope' intercept' d =
     (let predictedY = slope' * x d + intercept' in
      [\<lparr>x = x d, y = y d\<rparr>, \<lparr>x = x d, y = predictedY\<rparr>])"

definition make_view :: "state \<Rightarrow> point list \<Rightarrow> real \<Rightarrow> real \<Rightarrow> real \<Rightarrow> real \<Rightarrow> real \<Rightarrow> view" where
  \<comment> \<open>\<open>linePoints\<close>, \<open>residualLines\<close> and the condition under which the residuals are drawn,
    the same in the four versions\<close>
  "make_view s scatterData actualCorrelation' slope' intercept' displayedSlope' displayedIntercept' =
     \<lparr>actualCorrelation = actualCorrelation',
      displayedSlope = displayedSlope',
      displayedIntercept = displayedIntercept',
      linePoints = [\<lparr>x = 0, y = displayedIntercept'\<rparr>,
                    \<lparr>x = 10, y = displayedSlope' * 10 + displayedIntercept'\<rparr>],
      residualLines = map (residual slope' intercept') scatterData,
      residualsDrawn = (fitLine s \<and> showDistances s)\<rparr>"

text \<open>src/src/App.jsx: the baseline is the separately memoised mean.\<close>

definition render :: "state \<Rightarrow> point list \<Rightarrow> view option" where
  "render s scatterData =
     do {
       actualCorrelation' \<leftarrow> computeCorrelation (map x scatterData) (map y scatterData);
       r \<leftarrow> computeRegressionLine scatterData;
       meanY' \<leftarrow> meanY_memo scatterData;
       let displayedSlope' = (if fitLine s then slope r else 0);
       let displayedIntercept' = (if fitLine s then intercept r else meanY');
       Some (make_view s scatterData actualCorrelation' (slope r) (intercept r)
               displayedSlope' displayedIntercept')
     }"

text \<open>src/src/App\_old.jsx: the baseline is the \<open>meanY\<close> of the regression object.\<close>

definition render_old :: "state \<Rightarrow> point list \<Rightarrow> view option" where
  "render_old s scatterData =
     do {
       actualCorrelation' \<leftarrow> computeCorrelation (map x scatterData) (map y scatterData);
       r \<leftarrow> computeRegressionLine_old scatterData;
       let displayedSlope' = (if fitLine s then slope r else 0);
       displayedIntercept' \<leftarrow> (if fitLine s then Some (intercept r) else meanY r);
       Some (make_view s scatterData actualCorrelation' (slope r) (intercept r)
               displayedSlope' displayedIntercept')
     }"

text \<open>src/unnamed/part\_000: as src/src/App\_old.jsx, with its own \<open>computeCorrelation\<close>.\<close>

definition render_part000 :: "state \<Rightarrow> point list \<Rightarrow> view option" where
  "render_part000 s scatterData =
     do {
       actualCorrelation' \<leftarrow> computeCorrelation_part000 (map x scatterData) (map y scatterData);
       r \<leftarrow> computeRegressionLine_old scatterData;
       let displayedSlope' = (if fitLine s then slope r else 0);
       displayedIntercept' \<leftarrow> (if fitLine s then Some (intercept r) else meanY r);
       Some (make_view s scatterData actualCorrelation' (slope r) (intercept r)
               displayedSlope' displayedIntercept')
     }"

text \<open>src/unnamed/part\_001: the baseline is 0.\<close>

definition render_part001 :: "state \<Rightarrow> point list \<Rightarrow> view option" where
  "render_part001 s scatterData =
     do {
       actualCorrelation' \<leftarrow> computeCorrelation (map x scatterData) (map y scatterData);
       r \<leftarrow> computeRegressionLine scatterData;
       let displayedSlope' = (if fitLine s then slope r else 0);
       let displayedIntercept' = (if fitLine s then intercept r else 0);
       Some (make_view s scatterData actualCorrelation' (slope r) (intercept r)
               displayedSlope' displayedIntercept')
     }"

section \<open>Double arithmetic\<close>

text \<open>
  The statistics functions once more, in the arithmetic of the program. A JavaScript
  number is a finite double, \<open>Infinity\<close>, \<open>-Infinity\<close> or NaN. The two zeros of IEEE 754
  are one value here: they behave differently only as divisors, and the one divisor of
  these functions that can be zero, the square root in \<open>computeCorrelation\<close>, is never
  \<open>-0\<close>. The arrays hold finite doubles, given as the reals they are.
\<close>

datatype Number = Fin real | PInf | NInf | NaN

text \<open>
  An operation of IEEE 754 on finite operands returns the exact result, rounded. The
  operations below take the rounding \<open>R\<close> as a parameter: with \<open>R = round64\<close> they are the
  operations of the program, with \<open>R = Fin\<close> nothing is rounded, which is the exact
  arithmetic of the first model.
\<close>

definition pow2 :: "int \<Rightarrow> real" where
  \<comment> \<open>\<open>2^q\<close> for an integer \<open>q\<close>\<close>
  "pow2 q = (if 0 \<le> q then 2 ^ nat q else 1 / 2 ^ nat (- q))"

definition round_even :: "real \<Rightarrow> int" where
  \<comment> \<open>the nearest integer, the even one of the two when \<open>t\<close> is half-way\<close>
  "round_even t =
     (let f = \<lfloor>t\<rfloor> in
      if t - of_int f < 1 / 2 \<or> (t - of_int f = 1 / 2 \<and> even f) then f else f + 1)"

text \<open>
  Binary64, rounding to nearest, ties to even: a real \<open>r\<close> with \<open>2^e \<le> |r| < 2^(e+1)\<close> is
  rounded to a multiple of \<open>2^(e-52)\<close>, and to a multiple of \<open>2^(-1074)\<close> when
  \<open>|r| < 2^(-1022)\<close> (the subnormal numbers, and zero); a rounded value of magnitude
  \<open>2^1024\<close> or more is an infinity.
\<close>

definition quantum :: "real \<Rightarrow> int" where
  "quantum r = (if \<bar>r\<bar> < pow2 (- 1022) then - 1074 else \<lfloor>log 2 \<bar>r\<bar>\<rfloor> - 52)"

definition overflow :: "real \<Rightarrow> Number" where
  "overflow m = (if pow2 1024 \<le> m then PInf else if m \<le> - pow2 1024 then NInf else Fin m)"

definition round64 :: "real \<Rightarrow> Number" where
  "round64 r = overflow (of_int (round_even (r / pow2 (quantum r))) * pow2 (quantum r))"

text \<open>
  \<open>a + b\<close>, \<open>a - b\<close>, \<open>a * b\<close>, \<open>a / b\<close> and \<open>Math.sqrt(a)\<close>. NaN operands give NaN; so
  do \<open>Infinity - Infinity\<close>, \<open>0 * Infinity\<close>, \<open>0 / 0\<close>, \<open>Infinity / Infinity\<close> and the
  square root of a negative number. A non-zero number divided by zero is an infinity
  of the sign of the dividend.
\<close>

fun fl_add :: "(real \<Rightarrow> Number) \<Rightarrow> Number \<Rightarrow> Number \<Rightarrow> Number" where
  "fl_add R (Fin a) (Fin b) = R (a + b)"
| "fl_add R NaN b = NaN"
| "fl_add R a NaN = NaN"
| "fl_add R PInf NInf = NaN"
| "fl_add R NInf PInf = NaN"
| "fl_add R PInf b = PInf"
| "fl_add R a PInf = PInf"
| "fl_add R NInf b = NInf"
| "fl_add R a NInf = NInf"

fun fl_sub :: "(real \<Rightarrow> Number) \<Rightarrow> Number \<Rightarrow> Number \<Rightarrow> Number" where
  "fl_sub R (Fin a) (Fin b) = R (a - b)"
| "fl_sub R NaN b = NaN"
| "fl_sub R a NaN = NaN"
| "fl_sub R PInf PInf = NaN"
| "fl_sub R NInf NInf = NaN"
| "fl_sub R PInf b = PInf"
| "fl_sub R a PInf = NInf"
| "fl_sub R NInf b = NInf"
| "fl_sub R a NInf = PInf"

fun fl_mul :: "(real \<Rightarrow> Number) \<Rightarrow> Number \<Rightarrow> Number \<Rightarrow> Number" where
  "fl_mul R (Fin a) (Fin b) = R (a * b)"
| "fl_mul R NaN b = NaN"
| "fl_mul R a NaN = NaN"
| "fl_mul R (Fin a) b = (if a = 0 then NaN else if (0 < a) = (b = PInf) then PInf else NInf)"
| "fl_mul R a (Fin b) = (if b = 0 then NaN else if (0 < b) = (a = PInf) then PInf else NInf)"
| "fl_mul R a b = (if a = b then PInf else NInf)"

fun fl_div :: "(real \<Rightarrow> Number) \<Rightarrow> Number \<Rightarrow> Number \<Rightarrow> Number" where
  "fl_div R (Fin a) (Fin b) =
     (if b = 0 then (if a = 0 then NaN else if 0 < a then PInf else NInf) else R (a / b))"
| "fl_div R NaN b = NaN"
| "fl_div R a NaN = NaN"
| "fl_div R (Fin a) b = Fin 0"
| "fl_div R a (Fin b) = (if (0 \<le> b) = (a = PInf) then PInf else NInf)"
| "fl_div R a b = NaN"

fun fl_sqrt :: "(real \<Rightarrow> Number) \<Rightarrow> Number \<Rightarrow> Number" where
  "fl_sqrt R (Fin a) = (if a < 0 then NaN else R (sqrt a))"
| "fl_sqrt R PInf = PInf"
| "fl_sqrt R a = NaN"

definition fl_nth :: "real list \<Rightarrow> nat \<Rightarrow> Number" where
  \<comment> \<open>\<open>a[i]\<close>: \<open>undefined\<close> past the end, which arithmetic turns into NaN.\<close>
  "fl_nth a i = (if i < length a then Fin (a ! i) else NaN)"

definition fl_not :: "Number \<Rightarrow> bool" where
  \<comment> \<open>\<open>!a\<close>: true of 0 and of NaN.\<close>
  "fl_not a = (a = Fin 0 \<or> a = NaN)"

text \<open>The loop of \<open>computeCorrelation\<close>.\<close>

function corr_loop_fl ::
  "(real \<Rightarrow> Number) \<Rightarrow> real list \<Rightarrow> real list \<Rightarrow> Number \<Rightarrow> Number \<Rightarrow> nat \<Rightarrow> nat
     \<Rightarrow> Number \<times> Number \<times> Number \<Rightarrow> Number \<times> Number \<times> Number" where
  "corr_loop_fl R xVals yVals meanX meanY' n i (numerator, denomX, denomY) =
     (if i < n then
        let dx = fl_sub R (fl_nth xVals i) meanX;
            dy = fl_sub R (fl_nth yVals i) meanY'
        in corr_loop_fl R xVals yVals meanX meanY' n (Suc i)
            (fl_add R numerator (fl_mul R dx dy),
             fl_add R denomX (fl_mul R dx dx),
             fl_add R denomY (fl_mul R dy dy))
      else (numerator, denomX, denomY))"
  by pat_completeness auto
termination
  by (relation "measure (\<lambda>(R, xVals, yVals, meanX, meanY', n, i, acc). n - i)") auto

declare corr_loop_fl.simps [simp del]

text \<open>\<open>computeCorrelation\<close> of src/src/App.jsx, src/src/App\_old.jsx and
  src/unnamed/part\_001; \<open>reduce((a, b) => a + b, 0)\<close> adds from the left, starting at 0.\<close>

definition computeCorrelation_fl :: "(real \<Rightarrow> Number) \<Rightarrow> real list \<Rightarrow> real list \<Rightarrow> Number" where
  "computeCorrelation_fl R xVals yVals =
     (let n = length xVals in
      if n \<le> 1 then Fin 0
      else
        let meanX = fl_div R (foldl (\<lambda>a b. fl_add R a (Fin b)) (Fin 0) xVals) (Fin (real n));
            meanY' = fl_div R (foldl (\<lambda>a b. fl_add R a (Fin b)) (Fin 0) yVals) (Fin (real n));
            (numerator, denomX, denomY) =
              corr_loop_fl R xVals yVals meanX meanY' n 0 (Fin 0, Fin 0, Fin 0)
        in if denomX = Fin 0 \<or> denomY = Fin 0 then Fin 0
           else fl_div R numerator (fl_sqrt R (fl_mul R denomX denomY)))"


text \<open>The object returned by \<open>computeRegressionLine\<close>, its fields JavaScript numbers.\<close>

record regression_fl =
  slope_fl :: Number
  intercept_fl :: Number
  meanY_fl :: "Number option"

text \<open>The body of the \<open>data.forEach\<close> of \<open>computeRegressionLine\<close>.\<close>

definition regress_step_fl ::
  "(real \<Rightarrow> Number) \<Rightarrow> Number \<Rightarrow> Number \<Rightarrow> point \<Rightarrow> Number \<times> Number \<Rightarrow> Number \<times> Number" where
  "regress_step_fl R meanX meanY' d = (\<lambda>(numerator, denominator).
     (fl_add R numerator (fl_mul R (fl_sub R (Fin (x d)) meanX) (fl_sub R (Fin (y d)) meanY')),
      fl_add R denominator (fl_mul R (fl_sub R (Fin (x d)) meanX) (fl_sub R (Fin (x d)) meanX))))"

text \<open>\<open>computeRegressionLine\<close> of src/src/App.jsx and src/unnamed/part\_001.\<close>

definition computeRegressionLine_fl :: "(real \<Rightarrow> Number) \<Rightarrow> point list \<Rightarrow> regression_fl" where
  "computeRegressionLine_fl R data =
     (let n = length data in
      if n = 0 then \<lparr>slope_fl = Fin 0, intercept_fl = Fin 0, meanY_fl = None\<rparr>
      else
        let meanX = fl_div R (foldl (\<lambda>acc d. fl_add R acc (Fin (x d))) (Fin 0) data) (Fin (real n));
            meanY' = fl_div R (foldl (\<lambda>acc d. fl_add R acc (Fin (y d))) (Fin 0) data) (Fin (real n));
            (numerator, denominator) = fold (regress_step_fl R meanX meanY') data (Fin 0, Fin 0)
        in if denominator = Fin 0
           then \<lparr>slope_fl = Fin 0, intercept_fl = meanY', meanY_fl = None\<rparr>
           else
             let slope' = fl_div R numerator denominator;
                 intercept' = fl_sub R meanY' (fl_mul R slope' meanX)
             in \<lparr>slope_fl = slope', intercept_fl = intercept', meanY_fl = None\<rparr>)"


text \<open>The two expressions of the rescaling in \<open>generateCorrelatedData\<close>.\<close>

definition raw_range_fl :: "(real \<Rightarrow> Number) \<Rightarrow> Number \<Rightarrow> Number \<Rightarrow> Number" where
  \<comment> \<open>\<open>max - min || 1\<close>\<close>
  "raw_range_fl R maxRaw minRaw =
     (let d = fl_sub R maxRaw minRaw in if fl_not d then Fin 1 else d)"

definition scaled_fl ::
  "(real \<Rightarrow> Number) \<Rightarrow> real list \<Rightarrow> nat \<Rightarrow> Number \<Rightarrow> Number \<Rightarrow> real \<Rightarrow> real \<Rightarrow> Number" where
  \<comment> \<open>\<open>xMin + ((raw[i] - minRaw) / rangeRaw) * (xMax - xMin)\<close>\<close>
  "scaled_fl R raw i minRaw rangeRaw xMin xMax =
     fl_add R (Fin xMin)
       (fl_mul R (fl_div R (fl_sub R (fl_nth raw i) minRaw) rangeRaw)
          (fl_sub R (Fin xMax) (Fin xMin)))"

section \<open>Notions of the specification\<close>

text \<open>The two-pass definitional formulas: the mean first, then the centred sums.\<close>

definition spec_mean :: "real list \<Rightarrow> real" where
  "spec_mean vs = sum_list vs / real (length vs)"

definition sum_products :: "real list \<Rightarrow> real list \<Rightarrow> real" where
  "sum_products xs ys = (\<Sum>(a, b) \<leftarrow> zip xs ys. (a - spec_mean xs) * (b - spec_mean ys))"

definition sum_squares :: "real list \<Rightarrow> real" where
  "sum_squares vs = (\<Sum>a \<leftarrow> vs. (a - spec_mean vs) * (a - spec_mean vs))"




text \<open>
  Ordinary least squares as the specification gives it: the slope is the centred sum of
  products over the centred sum of squares of \<open>x\<close>, the intercept \<open>meanY - slope\<cdot>meanX\<close>;
  when all \<open>x\<close> are equal, the horizontal line through the mean.
\<close>

definition ols :: "point list \<Rightarrow> real \<times> real" where
  \<comment> \<open>(slope, intercept)\<close>
  "ols data =
     (if sum_squares (map x data) = 0 then (0, spec_mean (map y data))
      else (sum_products (map x data) (map y data) / sum_squares (map x data),
            spec_mean (map y data) -
              sum_products (map x data) (map y data) / sum_squares (map x data) * spec_mean (map x data)))"

text \<open>The mean of the sample's \<open>y\<close> values, 0 for the empty sample.\<close>

definition sample_meanY :: "point list \<Rightarrow> real" where
  "sample_meanY data = (if data = [] then 0 else spec_mean (map y data))"

datatype DisplayMode = Baseline | Fitted

definition displayMode :: "state \<Rightarrow> DisplayMode" where
  "displayMode s = (if fitLine s then Fitted else Baseline)"

text \<open>The events that change a generation parameter.\<close>

definition is_param_change :: "event \<Rightarrow> bool" where
  "is_param_change e = (case e of FitClick \<Rightarrow> False | _ \<Rightarrow> True)"

text \<open>The bounds of the two sliders: \<open>min="-1" max="1"\<close> and \<open>min="10" max="200"\<close>.\<close>

definition event_in_range :: "event \<Rightarrow> bool" where
  "event_in_range e =
     (case e of CorrChange v \<Rightarrow> - 1 \<le> v \<and> v \<le> 1
      | SizeChange v \<Rightarrow> 10 \<le> v \<and> v \<le> 200
      | FitClick \<Rightarrow> True)"

definition params_in_range :: "state \<Rightarrow> bool" where
  "params_in_range s = (- 1 \<le> corr s \<and> corr s \<le> 1 \<and> 10 \<le> sampleSize s \<and> sampleSize s \<le> 200)"

text \<open>
  The linear rescaling of a value of a dimension \<open>vs\<close> from that dimension's own
  \<open>[min, max]\<close> into \<open>[lo, hi]\<close>, the divisor taken as 1 when the raw range is zero.
\<close>

definition rescale :: "real list \<Rightarrow> real \<Rightarrow> real \<Rightarrow> real \<Rightarrow> real" where
  "rescale vs lo hi v =
     lo + (v - Min (set vs)) /
          (if Max (set vs) - Min (set vs) = 0 then 1 else Max (set vs) - Min (set vs)) * (hi - lo)"

text \<open>The number of draws of a tape that the resampling loops of \<open>randn\<close> keep.\<close>

definition draws_left :: "real list \<Rightarrow> nat" where
  "draws_left tape = length (filter (\<lambda>u. u \<noteq> 0) tape)"






text \<open>A number of the first model as a JavaScript number, \<open>None\<close> being NaN.\<close>

definition number :: "real option \<Rightarrow> Number" where
  "number a = (case a of Some v \<Rightarrow> Fin v | None \<Rightarrow> NaN)"


text \<open>
  What the proofs use of a rounding: it yields no NaN, and it maps a non-negative real
  to a non-negative number or to \<open>Infinity\<close>.
\<close>

definition nonneg :: "Number \<Rightarrow> bool" where
  "nonneg a = (case a of Fin v \<Rightarrow> 0 \<le> v | PInf \<Rightarrow> True | NInf \<Rightarrow> False | NaN \<Rightarrow> False)"

definition rounding :: "(real \<Rightarrow> Number) \<Rightarrow> bool" where
  "rounding R = (\<forall>r. R r \<noteq> NaN \<and> (0 \<le> r \<longrightarrow> nonneg (R r)))"

section \<open>Sums computed by the loops\<close>

lemma js_div_Some: "b \<noteq> 0 \<Longrightarrow> js_div a b = Some (a / b)"
  by (simp add: js_div_def)

lemma foldl_add_sum_list: "foldl (\<lambda>a b. a + f b) s vs = s + sum_list (map f vs)" for s :: real
  by (induction vs arbitrary: s) (simp_all add: add.assoc)

lemma js_arith_Some [simp]: "js_arith f (Some u) (Some v) = Some (f u v)"
  by (simp add: js_arith_def)

lemma corr_loop_sums:
  assumes "n = length xs" and "n \<le> length ys" and "i \<le> n"
  shows "corr_loop xs ys mx my n i (Some a, Some b, Some c) =
     (Some (a + (\<Sum>j = i..<n. (xs ! j - mx) * (ys ! j - my))),
      Some (b + (\<Sum>j = i..<n. (xs ! j - mx) * (xs ! j - mx))),
      Some (c + (\<Sum>j = i..<n. (ys ! j - my) * (ys ! j - my))))"
  using assms
proof (induction "n - i" arbitrary: i a b c)
  case 0
  then show ?case by (simp add: corr_loop.simps)
next
  case (Suc k)
  then have lt: "i < n" and k: "k = n - Suc i" and le: "Suc i \<le> n" by simp_all
  have ih: "corr_loop xs ys mx my n (Suc i) (Some a', Some b', Some c') =
     (Some (a' + (\<Sum>j = Suc i..<n. (xs ! j - mx) * (ys ! j - my))),
      Some (b' + (\<Sum>j = Suc i..<n. (xs ! j - mx) * (xs ! j - mx))),
      Some (c' + (\<Sum>j = Suc i..<n. (ys ! j - my) * (ys ! j - my))))" for a' b' c'
    using Suc.hyps(1) [OF k Suc.prems(1) Suc.prems(2) le] .
  have split: "(\<Sum>j = i..<n. g j) = g i + (\<Sum>j = Suc i..<n. g j)" for g :: "nat \<Rightarrow> real"
    using lt by (simp add: sum.atLeast_Suc_lessThan)
  have xi: "js_nth xs i = Some (xs ! i)" and yi: "js_nth ys i = Some (ys ! i)"
    using lt Suc.prems(1) Suc.prems(2) by (simp_all add: js_nth_def)
  show ?case
    by (subst corr_loop.simps)
      (simp add: lt xi yi ih Let_def split [of "\<lambda>j. (xs ! j - mx) * (ys ! j - my)"]
        split [of "\<lambda>j. (xs ! j - mx) * (xs ! j - mx)"]
        split [of "\<lambda>j. (ys ! j - my) * (ys ! j - my)"] add.assoc)
qed

lemma sum_nth_zip:
  fixes g :: "real \<Rightarrow> real \<Rightarrow> real"
  assumes "length xs = length ys"
  shows "(\<Sum>j = 0..<length xs. g (xs ! j) (ys ! j)) = (\<Sum>(a, b) \<leftarrow> zip xs ys. g a b)"
proof -
  have "(\<Sum>(a, b) \<leftarrow> zip xs ys. g a b) =
        (\<Sum>j = 0..<length (zip xs ys). (map (\<lambda>(a, b). g a b) (zip xs ys)) ! j)"
    by (simp add: sum_list_sum_nth)
  also have "\<dots> = (\<Sum>j = 0..<length xs. g (xs ! j) (ys ! j))"
    using assms by (intro sum.cong) simp_all
  finally show ?thesis by simp
qed


lemma sum_squares_nonneg: "0 \<le> sum_squares vs"
  unfolding sum_squares_def by (rule sum_list_nonneg) auto

lemma corr_loop_whole:
  assumes "length xs = length ys"
  shows "corr_loop xs ys (spec_mean xs) (spec_mean ys) (length xs) 0 (Some 0, Some 0, Some 0) =
           (Some (sum_products xs ys), Some (sum_squares xs), Some (sum_squares ys))"
proof -
  have a: "(\<Sum>j = 0..<length xs. (xs ! j - spec_mean xs) * (ys ! j - spec_mean ys)) =
           sum_products xs ys"
    unfolding sum_products_def
    by (rule sum_nth_zip [OF assms, of "\<lambda>a b. (a - spec_mean xs) * (b - spec_mean ys)"])
  have b: "(\<Sum>j = 0..<length vs. (vs ! j - m) * (vs ! j - m)) = (\<Sum>a \<leftarrow> vs. (a - m) * (a - m))"
    for vs :: "real list" and m
    by (simp add: sum_list_sum_nth)
  have c: "(\<Sum>j = 0..<length xs. (ys ! j - spec_mean ys) * (ys ! j - spec_mean ys)) =
           sum_squares ys"
    unfolding assms sum_squares_def by (rule b)
  have le: "length xs \<le> length ys"
    using assms by simp
  show ?thesis
    unfolding corr_loop_sums [OF refl le le0] a c b sum_squares_def by simp
qed

lemma computeCorrelation_value:
  assumes "length xs = length ys"
  shows "computeCorrelation xs ys =
     Some (if length xs \<le> 1 \<or> sum_squares xs = 0 \<or> sum_squares ys = 0 then 0
           else sum_products xs ys / sqrt (sum_squares xs * sum_squares ys))"
proof (cases "length xs \<le> 1")
  case True
  then show ?thesis by (simp add: computeCorrelation_def)
next
  case False
  then have n: "real (length xs) \<noteq> 0" by auto
  have mx: "js_div (foldl (\<lambda>a b. a + b) 0 xs) (real (length xs)) = Some (spec_mean xs)"
    using n foldl_add_sum_list [of "\<lambda>b. b" 0 xs] by (simp add: js_div_Some spec_mean_def)
  have my: "js_div (foldl (\<lambda>a b. a + b) 0 ys) (real (length xs)) = Some (spec_mean ys)"
    using n assms foldl_add_sum_list [of "\<lambda>b. b" 0 ys] by (simp add: js_div_Some spec_mean_def)
  have nn: "0 \<le> sum_squares xs * sum_squares ys"
    by (simp add: sum_squares_nonneg)
  have sq: "Math_sqrt (sum_squares xs * sum_squares ys) = Some (sqrt (sum_squares xs * sum_squares ys))"
    using nn by (simp add: Math_sqrt_def)
  show ?thesis
    using False
    by (simp add: computeCorrelation_def Let_def mx my corr_loop_whole [OF assms] sq js_div_Some)
qed

lemma computeCorrelation_part000_value:
  assumes "length xs = length ys"
  shows "computeCorrelation_part000 xs ys =
     Some (if length xs \<le> 1 \<or> sum_squares xs = 0 \<or> sum_squares ys = 0 then 0
           else sum_products xs ys / sqrt (sum_squares xs * sum_squares ys))"
proof (cases "length xs \<le> 1")
  case True
  then show ?thesis by (simp add: computeCorrelation_part000_def js_not_def)
next
  case False
  then have n: "real (length xs) \<noteq> 0" by auto
  have mx: "js_div (foldl (\<lambda>a b. a + b) 0 xs) (real (length xs)) = Some (spec_mean xs)"
    using n foldl_add_sum_list [of "\<lambda>b. b" 0 xs] by (simp add: js_div_Some spec_mean_def)
  have my: "js_div (foldl (\<lambda>a b. a + b) 0 ys) (real (length xs)) = Some (spec_mean ys)"
    using n assms foldl_add_sum_list [of "\<lambda>b. b" 0 ys] by (simp add: js_div_Some spec_mean_def)
  have nn: "0 \<le> sum_squares xs * sum_squares ys"
    by (simp add: sum_squares_nonneg)
  have sq: "Math_sqrt (sum_squares xs * sum_squares ys) = Some (sqrt (sum_squares xs * sum_squares ys))"
    using nn by (simp add: Math_sqrt_def)
  show ?thesis
    using False
    by (simp add: computeCorrelation_part000_def js_not_def Let_def mx my corr_loop_whole [OF assms] sq js_div_Some)
qed


lemma sum_squares_zero_const:
  assumes "sum_squares vs = 0" and "a \<in> set vs"
  shows "a = spec_mean vs"
proof -
  have "\<forall>t \<in> set (map (\<lambda>a. (a - spec_mean vs) * (a - spec_mean vs)) vs). t = 0"
    using assms(1) unfolding sum_squares_def
    by (subst (asm) sum_list_nonneg_eq_0_iff) auto
  then have "(a - spec_mean vs) * (a - spec_mean vs) = 0"
    using assms(2) by auto
  then show ?thesis by simp
qed

lemma nonconstant_sum_squares:
  assumes "a \<in> set vs" and "b \<in> set vs" and "a \<noteq> b"
  shows "0 < sum_squares vs"
proof -
  have "sum_squares vs \<noteq> 0"
    using sum_squares_zero_const [of vs a] sum_squares_zero_const [of vs b] assms by auto
  then show ?thesis
    using sum_squares_nonneg [of vs] by simp
qed

lemma fold_regress_step:
  "fold (regress_step mx my) data (a, b) =
     (a + (\<Sum>d \<leftarrow> data. (x d - mx) * (y d - my)), b + (\<Sum>d \<leftarrow> data. (x d - mx) * (x d - mx)))"
  by (induction data arbitrary: a b) (simp_all add: regress_step_def add.assoc)

lemma sum_products_points:
  "(\<Sum>d \<leftarrow> data. (x d - spec_mean (map x data)) * (y d - spec_mean (map y data))) =
     sum_products (map x data) (map y data)"
  by (simp add: sum_products_def zip_map_map zip_same_conv_map comp_def)

lemma sum_squares_points:
  "(\<Sum>d \<leftarrow> data. (x d - spec_mean (map x data)) * (x d - spec_mean (map x data))) =
     sum_squares (map x data)"
  by (simp add: sum_squares_def comp_def)

lemma regress_means:
  assumes "data \<noteq> []"
  shows "js_div (foldl (\<lambda>acc d. acc + x d) 0 data) (real (length data)) = Some (spec_mean (map x data))"
    and "js_div (foldl (\<lambda>acc d. acc + y d) 0 data) (real (length data)) = Some (spec_mean (map y data))"
  using assms by (simp_all add: js_div_Some foldl_add_sum_list spec_mean_def)

lemma computeRegressionLine_value:
  assumes "data \<noteq> []"
  shows "computeRegressionLine data =
     Some \<lparr>slope = fst (ols data), intercept = snd (ols data), meanY = None\<rparr>"
  unfolding computeRegressionLine_def Let_def regress_means [OF assms]
  using assms
  by (simp add: fold_regress_step sum_products_points sum_squares_points ols_def js_div_Some)

lemma computeRegressionLine_old_value:
  assumes "data \<noteq> []"
  shows "computeRegressionLine_old data =
     Some \<lparr>slope = fst (ols data), intercept = snd (ols data), meanY = Some (spec_mean (map y data))\<rparr>"
  unfolding computeRegressionLine_old_def Let_def Option.bind.bind_lunit regress_means [OF assms]
  using assms
  by (simp add: fold_regress_step sum_products_points sum_squares_points ols_def js_div_Some)

lemma ols_on_line:
  assumes line: "\<forall>d \<in> set data. y d = k * x d + c"
    and two: "d1 \<in> set data" "d2 \<in> set data" "x d1 \<noteq> x d2"
  shows "ols data = (k, c)"
proof -
  have ne: "data \<noteq> []" using two by auto
  then have n: "real (length data) \<noteq> 0" by simp
  have ys: "map y data = map (\<lambda>d. k * x d + c) data"
    using line by simp
  have "sum_list (map y data) = k * sum_list (map x data) + c * real (length data)"
    unfolding ys by (induction data) (simp_all add: algebra_simps)
  then have my: "spec_mean (map y data) = k * spec_mean (map x data) + c"
    using n by (simp add: spec_mean_def field_simps)
  have "sum_products (map x data) (map y data) =
        (\<Sum>d \<leftarrow> data. k * ((x d - spec_mean (map x data)) * (x d - spec_mean (map x data))))"
    unfolding sum_products_points [symmetric] my
    using line by (intro arg_cong [where f = sum_list] map_cong) (simp_all add: algebra_simps)
  also have "\<dots> = k * sum_squares (map x data)"
    unfolding sum_squares_points [symmetric] by (simp add: sum_list_const_mult)
  finally have sp: "sum_products (map x data) (map y data) = k * sum_squares (map x data)" .
  have pos: "0 < sum_squares (map x data)"
    using two by (intro nonconstant_sum_squares [of "x d1" _ "x d2"]) auto
  show ?thesis
    using pos by (simp add: ols_def sp my)
qed

section \<open>Facts about the component\<close>

lemma computeCorrelation_total: "\<exists>c. computeCorrelation (map x data) (map y data) = Some c"
  by (simp add: computeCorrelation_value)

lemma computeCorrelation_part000_total:
  "\<exists>c. computeCorrelation_part000 (map x data) (map y data) = Some c"
  by (simp add: computeCorrelation_part000_value)

lemma meanY_memo_value: "meanY_memo data = Some (sample_meanY data)"
  by (cases data) (simp_all add: meanY_memo_def sample_meanY_def js_div_Some foldl_add_sum_list spec_mean_def)

lemma computeRegressionLine_total:
  "\<exists>r. computeRegressionLine data = Some r"
  by (cases "data = []") (simp_all add: computeRegressionLine_value, simp add: computeRegressionLine_def)

lemma computeRegressionLine_old_total:
  "\<exists>r. computeRegressionLine_old data = Some r \<and> meanY r = Some (sample_meanY data)"
  by (cases "data = []")
    (simp_all add: computeRegressionLine_old_value sample_meanY_def, simp add: computeRegressionLine_old_def)

lemma computeRegressionLine_ols:
  assumes "computeRegressionLine data = Some r"
  shows "(slope r, intercept r) = (if data = [] then (0, 0) else ols data)"
proof (cases "data = []")
  case True
  then show ?thesis using assms by (auto simp add: computeRegressionLine_def)
next
  case False
  then show ?thesis using assms by (auto simp add: computeRegressionLine_value)
qed

lemma computeRegressionLine_old_ols:
  assumes "computeRegressionLine_old data = Some r"
  shows "(slope r, intercept r) = (if data = [] then (0, 0) else ols data)"
proof (cases "data = []")
  case True
  then show ?thesis using assms by (auto simp add: computeRegressionLine_old_def)
next
  case False
  then show ?thesis using assms by (auto simp add: computeRegressionLine_old_value)
qed

lemma render_value:
  assumes "computeRegressionLine data = Some r"
  shows "\<exists>c. render s data = Some (make_view s data c (slope r) (intercept r)
           (if fitLine s then slope r else 0) (if fitLine s then intercept r else sample_meanY data))"
  using computeCorrelation_total [of data] assms
  by (auto simp add: render_def meanY_memo_value Let_def)

lemma render_old_value:
  assumes "computeRegressionLine_old data = Some r"
  shows "\<exists>c. render_old s data = Some (make_view s data c (slope r) (intercept r)
           (if fitLine s then slope r else 0) (if fitLine s then intercept r else sample_meanY data))"
proof -
  have "meanY r = Some (sample_meanY data)"
    using computeRegressionLine_old_total [of data] assms by auto
  then show ?thesis
    using computeCorrelation_total [of data] assms
    by (auto simp add: render_old_def Let_def)
qed

lemma render_part000_value:
  assumes "computeRegressionLine_old data = Some r"
  shows "\<exists>c. render_part000 s data = Some (make_view s data c (slope r) (intercept r)
           (if fitLine s then slope r else 0) (if fitLine s then intercept r else sample_meanY data))"
proof -
  have "meanY r = Some (sample_meanY data)"
    using computeRegressionLine_old_total [of data] assms by auto
  then show ?thesis
    using computeCorrelation_part000_total [of data] assms
    by (auto simp add: render_part000_def Let_def)
qed

lemma render_part001_value:
  assumes "computeRegressionLine data = Some r"
  shows "\<exists>c. render_part001 s data = Some (make_view s data c (slope r) (intercept r)
           (if fitLine s then slope r else 0) (if fitLine s then intercept r else 0))"
  using computeCorrelation_total [of data] assms
  by (auto simp add: render_part001_def Let_def)

lemma run_Cons: "run (e # es) s = run es (handle e s)"
  by (simp add: run_def)

lemma run_snoc: "run (es @ [e]) s = handle e (run es s)"
  by (simp add: run_def)

lemma displayMode_handle:
  "displayMode (handle e s) = (if e = FitClick then Fitted else Baseline)"
  by (cases e) (simp_all add: displayMode_def)

lemma displayMode_run:
  "displayMode (run es s) =
     (if es = [] then displayMode s else if last es = FitClick then Fitted else Baseline)"
  by (cases es rule: rev_cases) (simp_all add: run_snoc displayMode_handle, simp add: run_def)

lemma handle_in_range:
  "params_in_range s \<Longrightarrow> event_in_range e \<Longrightarrow> params_in_range (handle e s)"
  by (cases e) (simp_all add: params_in_range_def event_in_range_def)

lemma run_in_range:
  "params_in_range s \<Longrightarrow> \<forall>e \<in> set es. event_in_range e \<Longrightarrow> params_in_range (run es s)"
  by (induction es arbitrary: s) (simp_all add: run_Cons handle_in_range, simp add: run_def)

section \<open>Facts about the generator\<close>

lemma draw_nonzero_Some:
  assumes "wf_tape tape" and "0 < draws_left tape"
  shows "\<exists>u tape'. draw_nonzero tape = Some (u, tape') \<and> 0 < u \<and> u < 1 \<and>
           wf_tape tape' \<and> draws_left tape' = draws_left tape - 1"
  using assms
proof (induction tape)
  case Nil
  then show ?case by (simp add: draws_left_def)
next
  case (Cons r tape)
  show ?case
  proof (cases "r = 0")
    case True
    then show ?thesis
      using Cons by (simp add: wf_tape_def draws_left_def)
  next
    case False
    then show ?thesis
      using Cons.prems by (simp add: wf_tape_def draws_left_def)
  qed
qed

lemma randn_Some:
  assumes "wf_tape tape" and "2 \<le> draws_left tape"
  shows "\<exists>z tape'. randn tape = Some (z, tape') \<and> wf_tape tape' \<and>
           draws_left tape' = draws_left tape - 2"
proof -
  obtain u tape1 where u: "draw_nonzero tape = Some (u, tape1)" "0 < u" "u < 1"
      "wf_tape tape1" "draws_left tape1 = draws_left tape - 1"
    using draw_nonzero_Some [of tape] assms by auto
  obtain v tape2 where v: "draw_nonzero tape1 = Some (v, tape2)"
      "wf_tape tape2" "draws_left tape2 = draws_left tape1 - 1"
    using draw_nonzero_Some [of tape1] u assms(2) by auto
  have l: "Math_log u = Some (ln u)"
    using u(2) by (simp add: Math_log_def)
  have "ln u < 0"
    using u(2,3) by simp
  then have r: "Math_sqrt (- (2 * ln u)) = Some (sqrt (- (2 * ln u)))"
    by (simp add: Math_sqrt_def)
  show ?thesis
    using u v by (simp add: randn_def l r)
qed

lemma raw_loop_Some:
  assumes "- 1 \<le> c" and "c \<le> 1"
  shows "wf_tape tape \<Longrightarrow> 4 * (nat n - i) \<le> draws_left tape \<Longrightarrow>
     \<exists>xs ys tape'. raw_loop c n i (xRaw, yRaw) tape = Some ((xRaw @ xs, yRaw @ ys), tape') \<and>
        length xs = nat n - i \<and> length ys = nat n - i"
proof (induction "nat n - i" arbitrary: i xRaw yRaw tape)
  case 0
  then have "\<not> int i < n" by simp
  then show ?case
    using 0 by (subst raw_loop.simps) simp
next
  case (Suc k)
  then have lt: "int i < n" and k: "k = nat n - Suc i" by simp_all
  have d: "4 + 4 * (nat n - Suc i) \<le> draws_left tape"
    using Suc.prems(2) Suc.hyps(2) by simp
  have "2 \<le> draws_left tape"
    using d by arith
  then obtain z1 tape1 where z1: "randn tape = Some (z1, tape1)" "wf_tape tape1"
      "draws_left tape1 = draws_left tape - 2"
    using randn_Some [of tape] Suc.prems(1) by blast
  have "2 \<le> draws_left tape1"
    using d z1(3) by arith
  then obtain z2 tape2 where z2: "randn tape1 = Some (z2, tape2)" "wf_tape tape2"
      "draws_left tape2 = draws_left tape1 - 2"
    using randn_Some [of tape1] z1(2) by blast
  have "0 \<le> (1 - c) * (1 + c)"
    using assms by (intro mult_nonneg_nonneg) simp_all
  then have "c * c \<le> 1"
    by (simp add: algebra_simps)
  then have s: "Math_sqrt (1 - c * c) = Some (sqrt (1 - c * c))"
    by (simp add: Math_sqrt_def)
  have d2: "4 * (nat n - Suc i) \<le> draws_left tape2"
    using d z1(3) z2(3) by arith
  obtain xs ys tape' where ih:
    "raw_loop c n (Suc i) (xRaw @ [z1], yRaw @ [c * z1 + sqrt (1 - c * c) * z2]) tape2 =
       Some (((xRaw @ [z1]) @ xs, (yRaw @ [c * z1 + sqrt (1 - c * c) * z2]) @ ys), tape')"
    "length xs = nat n - Suc i" "length ys = nat n - Suc i"
    using Suc.hyps(1) [OF k z2(2) d2] by blast
  show ?case
    apply (subst raw_loop.simps)
    apply (simp add: lt z1 z2 s ih Let_def)
    using Suc.hyps(2) by arith
qed

lemma scaled_value:
  assumes "i < length raw" and "rg \<noteq> 0"
  shows "scaled raw i (Some mn) (Some rg) lo hi = Some (lo + (raw ! i - mn) / rg * (hi - lo))"
  using assms by (simp add: scaled_def js_nth_def js_div_Some)

lemma scale_loop_value:
  assumes "length xRaw = nat n" and "length yRaw = nat n" and "rgx \<noteq> 0" and "rgy \<noteq> 0"
  shows "i \<le> nat n \<Longrightarrow>
     scale_loop xRaw yRaw (Some mnx) (Some rgx) (Some mny) (Some rgy) lo hi n i data =
       Some (data @ map (\<lambda>j. \<lparr>x = lo + (xRaw ! j - mnx) / rgx * (hi - lo),
                               y = lo + (yRaw ! j - mny) / rgy * (hi - lo)\<rparr>) [i..<nat n])"
proof (induction "nat n - i" arbitrary: i data)
  case 0
  then have "\<not> int i < n" and "i = nat n" by simp_all
  then show ?case
    by (subst scale_loop.simps) simp
next
  case (Suc k)
  then have lt: "int i < n" and k: "k = nat n - Suc i" and le: "Suc i \<le> nat n" and lt': "i < nat n"
    by simp_all
  have sx: "scaled xRaw i (Some mnx) (Some rgx) lo hi = Some (lo + (xRaw ! i - mnx) / rgx * (hi - lo))"
    using lt' assms(1,3) by (simp add: scaled_value)
  have sy: "scaled yRaw i (Some mny) (Some rgy) lo hi = Some (lo + (yRaw ! i - mny) / rgy * (hi - lo))"
    using lt' assms(2,4) by (simp add: scaled_value)
  show ?case
    by (subst scale_loop.simps) (simp add: lt sx sy Suc.hyps(1) [OF k le] upt_conv_Cons [OF lt'])
qed

lemma map_nth_zip:
  assumes "length xs = m" and "length ys = m"
  shows "map (\<lambda>j. f (xs ! j) (ys ! j)) [0..<m] = map (\<lambda>(a, b). f a b) (zip xs ys)"
  using assms by (intro nth_equalityI) simp_all

lemma generate_value:
  assumes "- 1 \<le> c" and "c \<le> 1" and "wf_tape tape" and "4 * nat n \<le> draws_left tape"
    and "0 < n"
  shows "\<exists>xs ys tape'. length xs = nat n \<and> length ys = nat n \<and>
     raw_loop c n 0 ([], []) tape = Some ((xs, ys), tape') \<and>
     generateCorrelatedData c n lo hi tape =
       Some (map (\<lambda>(a, b). \<lparr>x = rescale xs lo hi a, y = rescale ys lo hi b\<rparr>) (zip xs ys), tape')"
proof -
  obtain xs ys tape' where raw: "raw_loop c n 0 ([], []) tape = Some ((xs, ys), tape')"
      "length xs = nat n" "length ys = nat n"
    using raw_loop_Some [OF assms(1,2,3), of n 0 "[]" "[]"] assms(4) by auto
  have ne: "xs \<noteq> []" "ys \<noteq> []"
    using raw(2,3) assms(5) by auto
  define rgx where "rgx = (if Max (set xs) - Min (set xs) = 0 then 1 else Max (set xs) - Min (set xs))"
  define rgy where "rgy = (if Max (set ys) - Min (set ys) = 0 then 1 else Max (set ys) - Min (set ys))"
  have rg: "rgx \<noteq> 0" "rgy \<noteq> 0"
    by (simp_all add: rgx_def rgy_def)
  have mn: "Math_min xs = Some (Min (set xs))" "Math_min ys = Some (Min (set ys))"
    and mx: "Math_max xs = Some (Max (set xs))" "Math_max ys = Some (Max (set ys))"
    using ne by (simp_all add: Math_min_def Math_max_def)
  have rx: "raw_range (Some (Max (set xs))) (Some (Min (set xs))) = Some rgx"
    and ry: "raw_range (Some (Max (set ys))) (Some (Min (set ys))) = Some rgy"
    by (simp_all add: raw_range_def rgx_def rgy_def)
  have loop: "scale_loop xs ys (Some (Min (set xs))) (Some rgx) (Some (Min (set ys))) (Some rgy) lo hi n 0 [] =
      Some (map (\<lambda>(a, b). \<lparr>x = rescale xs lo hi a, y = rescale ys lo hi b\<rparr>) (zip xs ys))"
  proof -
    have "map (\<lambda>j. \<lparr>x = lo + (xs ! j - Min (set xs)) / rgx * (hi - lo),
                     y = lo + (ys ! j - Min (set ys)) / rgy * (hi - lo)\<rparr>) [0..<nat n] =
          map (\<lambda>(a, b). \<lparr>x = rescale xs lo hi a, y = rescale ys lo hi b\<rparr>) (zip xs ys)"
      unfolding rescale_def rgx_def [symmetric] rgy_def [symmetric]
      by (rule map_nth_zip [OF raw(2,3)])
    then show ?thesis
      by (simp only: scale_loop_value [OF raw(2,3) rg le0] append_Nil)
  qed
  have "generateCorrelatedData c n lo hi tape =
      Some (map (\<lambda>(a, b). \<lparr>x = rescale xs lo hi a, y = rescale ys lo hi b\<rparr>) (zip xs ys), tape')"
    by (simp add: generateCorrelatedData_def raw(1) Let_def mn mx rx ry loop)
  then show ?thesis
    using raw by blast
qed











lemma randn_half:
  "randn (1 / 2 # 1 / 2 # tape) = Some (- sqrt (2 * ln 2), tape)"
proof -
  have l: "Math_log (1 / 2) = Some (- ln 2)"
    by (simp add: Math_log_def ln_div)
  have r: "Math_sqrt (- 2 * - ln 2) = Some (sqrt (2 * ln 2))"
    by (simp add: Math_sqrt_def)
  show ?thesis
    using l r by (simp add: randn_def)
qed

lemma randn_quarter:
  "randn (1 / 2 # 1 / 4 # tape) = Some (0, tape)"
proof -
  have l: "Math_log (1 / 2) = Some (- ln 2)"
    by (simp add: Math_log_def ln_div)
  have r: "Math_sqrt (- 2 * - ln 2) = Some (sqrt (2 * ln 2))"
    by (simp add: Math_sqrt_def)
  have "cos (2 * pi * (1 / 4)) = 0"
    by (simp add: cos_pi_half)
  then show ?thesis
    using l r by (simp add: randn_def)
qed

lemma generate_example:
  "generateCorrelatedData 0 2 0 10 [1 / 2, 1 / 4, 1 / 2, 1 / 2, 1 / 2, 1 / 2, 1 / 2, 1 / 4] =
     Some ([\<lparr>x = 10, y = 0\<rparr>, \<lparr>x = 0, y = 10\<rparr>], [])"
proof -
  define z :: real where "z = - sqrt (2 * ln 2)"
  have neg: "z < 0"
    by (simp add: z_def)
  have raw: "raw_loop 0 2 0 ([], []) [1 / 2, 1 / 4, 1 / 2, 1 / 2, 1 / 2, 1 / 2, 1 / 2, 1 / 4] =
      Some (([0, z], [z, 0]), [])"
    by (simp add: raw_loop.simps randn_half randn_quarter Math_sqrt_def z_def)
  have mn: "Min {0, z} = z" and mx: "Max {0, z} = 0" and mn': "Min {z, 0} = z" and mx': "Max {z, 0} = 0"
    using neg by (simp_all add: min_def max_def)
  have loop: "scale_loop [0, z] [z, 0] (Some z) (Some (- z)) (Some z) (Some (- z)) 0 10 2 0 [] =
      Some [\<lparr>x = 10, y = 0\<rparr>, \<lparr>x = 0, y = 10\<rparr>]"
    using neg by (simp add: scale_loop.simps scaled_def js_nth_def js_div_def)
  show ?thesis
    using neg
    by (simp add: generateCorrelatedData_def raw Math_min_def Math_max_def raw_range_def mn mx mn' mx' loop)
qed

section \<open>Rounding to binary64\<close>

lemma pow2_powr: "pow2 q = 2 powr of_int q"
proof (cases "0 \<le> q")
  case True
  then show ?thesis
    by (simp add: pow2_def powr_realpow [symmetric])
next
  case False
  have "(2::real) powr of_int q = 1 / 2 powr of_int (- q)"
    using powr_minus_divide [of 2 "of_int (- q)"] by simp
  also have "\<dots> = 1 / 2 ^ nat (- q)"
    using False by (simp add: powr_realpow [symmetric])
  finally show ?thesis
    using False by (simp add: pow2_def)
qed

lemma pow2_numeral [simp]: "pow2 (numeral w) = 2 ^ numeral w"
  by (simp add: pow2_def)

lemma pow2_neg_numeral [simp]: "pow2 (- numeral w) = 1 / 2 ^ numeral w"
  by (simp add: pow2_def)

lemma pow2_0 [simp]: "pow2 0 = 1"
  by (simp add: pow2_def)

lemma pow2_1 [simp]: "pow2 1 = 2"
  by (simp add: pow2_def)

lemma pow2_pos [simp]: "0 < pow2 q"
  by (simp add: pow2_powr)

lemma pow2_nonneg [simp]: "0 \<le> pow2 q"
  using pow2_pos [of q] by (simp only: less_imp_le)

lemma pow2_neq_0 [simp]: "pow2 q \<noteq> 0"
  by (simp add: pow2_powr)

lemma pow2_abs [simp]: "\<bar>pow2 q\<bar> = pow2 q"
  using pow2_pos [of q] by (simp only: abs_of_pos)

lemma pow2_neg_1 [simp]: "pow2 (- 1) = 1 / 2"
  by (simp add: pow2_def)

lemma pow2_add: "pow2 (a + b) = pow2 a * pow2 b"
  by (simp add: pow2_powr powr_add)

lemma pow2_diff: "pow2 (a - b) = pow2 a / pow2 b"
  by (simp add: pow2_powr powr_diff)

lemma pow2_le_iff [simp]: "pow2 a \<le> pow2 b \<longleftrightarrow> a \<le> b"
  by (simp add: pow2_powr)

lemma pow2_less_iff [simp]: "pow2 a < pow2 b \<longleftrightarrow> a < b"
  by (simp add: pow2_powr)

lemma pow2_of_int: "0 \<le> d \<Longrightarrow> pow2 d = of_int (2 ^ nat d)"
  by (simp add: pow2_def)

lemma round_even_eq:
  assumes "\<bar>t - of_int k\<bar> < 1 / 2 \<or> (\<bar>t - of_int k\<bar> = 1 / 2 \<and> even k)"
  shows "round_even t = k"
proof (cases "of_int k \<le> t")
  case True
  then have f: "\<lfloor>t\<rfloor> = k"
    using assms by (intro floor_unique) auto
  show ?thesis
    using assms True by (auto simp add: round_even_def f Let_def)
next
  case False
  then have f: "\<lfloor>t\<rfloor> = k - 1"
    using assms by (intro floor_unique) auto
  show ?thesis
    using assms False by (auto simp add: round_even_def f Let_def)
qed

lemma quantum_normal:
  assumes "pow2 e \<le> \<bar>r\<bar>" and "\<bar>r\<bar> < pow2 (e + 1)" and "- 1022 \<le> e"
  shows "quantum r = e - 52"
proof -
  have "(2::real) powr of_int (- 1022) \<le> 2 powr of_int e"
    using assms(3) by (intro powr_mono) simp_all
  then have big: "\<not> \<bar>r\<bar> < pow2 (- 1022)"
    using assms(1) unfolding pow2_powr by linarith
  have "0 < pow2 e"
    by (simp add: pow2_powr)
  then have pos: "0 < \<bar>r\<bar>"
    using assms(1) by linarith
  have "\<lfloor>log 2 \<bar>r\<bar>\<rfloor> = e"
    using assms(1,2) pos unfolding pow2_powr by (subst floor_log_eq_powr_iff) simp_all
  then show ?thesis
    using big by (simp add: quantum_def)
qed

text \<open>
  The three ways in which the rounded value of a given real is found: from its binade
  and the nearest multiple of the quantum, the same below the normal range, and for a
  real that is a double already.
\<close>

lemma round64_normal:
  assumes "pow2 e \<le> \<bar>r\<bar>" and "\<bar>r\<bar> < pow2 (e + 1)" and "- 1022 \<le> e"
    and "\<bar>r / pow2 (e - 52) - of_int k\<bar> < 1 / 2 \<or>
         (\<bar>r / pow2 (e - 52) - of_int k\<bar> = 1 / 2 \<and> even k)"
  shows "round64 r = overflow (of_int k * pow2 (e - 52))"
proof -
  have q: "quantum r = e - 52"
    using assms(1,2,3) by (rule quantum_normal)
  have k: "round_even (r / pow2 (e - 52)) = k"
    using assms(4) by (rule round_even_eq)
  show ?thesis
    unfolding round64_def q k ..
qed

lemma round64_subnormal:
  assumes "\<bar>r\<bar> < pow2 (- 1022)"
    and "\<bar>r / pow2 (- 1074) - of_int k\<bar> < 1 / 2 \<or>
         (\<bar>r / pow2 (- 1074) - of_int k\<bar> = 1 / 2 \<and> even k)"
  shows "round64 r = overflow (of_int k * pow2 (- 1074))"
proof -
  have q: "quantum r = - 1074"
    using assms(1) by (simp add: quantum_def)
  have k: "round_even (r / pow2 (- 1074)) = k"
    using assms(2) by (rule round_even_eq)
  show ?thesis
    unfolding round64_def q k ..
qed

lemma overflow_0 [simp]: "overflow 0 = Fin 0"
  by (simp add: overflow_def)

lemma round64_0 [simp]: "round64 0 = Fin 0"
  using round64_subnormal [of 0 0] by simp

lemma round64_exact:
  assumes "\<bar>k\<bar> < 2 ^ 53" and "- 1074 \<le> q"
  shows "round64 (of_int k * pow2 q) = overflow (of_int k * pow2 q)"
proof (cases "k = 0")
  case True
  then show ?thesis by simp
next
  case False
  define r where "r = of_int k * pow2 q"
  have r0: "r \<noteq> 0"
    using False by (simp add: r_def)
  show ?thesis
  proof (cases "\<bar>r\<bar> < pow2 (- 1022)")
    case True
    have "r / pow2 (- 1074) = of_int k * pow2 (q - (- 1074))"
      unfolding pow2_diff r_def by simp
    also have "\<dots> = of_int (k * 2 ^ nat (q + 1074))"
      using assms(2) by (simp add: pow2_of_int)
    finally have t: "r / pow2 (- 1074) = of_int (k * 2 ^ nat (q + 1074))" .
    then have m: "of_int (k * 2 ^ nat (q + 1074)) * pow2 (- 1074) = r"
      by (simp add: field_simps)
    have "round64 r = overflow (of_int (k * 2 ^ nat (q + 1074)) * pow2 (- 1074))"
    proof (rule round64_subnormal)
      show "\<bar>r\<bar> < pow2 (- 1022)"
        by fact
      show "\<bar>r / pow2 (- 1074) - of_int (k * 2 ^ nat (q + 1074))\<bar> < 1 / 2 \<or>
          (\<bar>r / pow2 (- 1074) - of_int (k * 2 ^ nat (q + 1074))\<bar> = 1 / 2 \<and>
           even (k * 2 ^ nat (q + 1074)))"
        unfolding t by simp
    qed
    then show ?thesis
      unfolding m r_def .
  next
    case False
    define e where "e = \<lfloor>log 2 \<bar>r\<bar>\<rfloor>"
    have pos: "0 < \<bar>r\<bar>"
      using r0 by simp
    have bounds: "pow2 e \<le> \<bar>r\<bar>" "\<bar>r\<bar> < pow2 (e + 1)"
      using floor_log_eq_powr_iff [of "\<bar>r\<bar>" 2 e] pos by (simp_all add: e_def pow2_powr)
    have "pow2 (- 1022) < pow2 (e + 1)"
      using False bounds(2) by linarith
    then have "- 1022 < e + 1"
      by (simp only: pow2_less_iff)
    then have e1: "- 1022 \<le> e"
      by simp
    have "\<bar>r\<bar> = of_int \<bar>k\<bar> * pow2 q"
      by (simp add: r_def abs_mult)
    also have "\<dots> < 2 ^ 53 * pow2 q"
    proof -
      have "(of_int \<bar>k\<bar> :: real) < of_int (2 ^ 53)"
        using assms(1) by (simp only: of_int_less_iff)
      then show ?thesis by simp
    qed
    also have "\<dots> = pow2 (53 + q)"
      by (simp add: pow2_add)
    finally have "pow2 e < pow2 (53 + q)"
      using bounds(1) by linarith
    then have "e < 53 + q"
      by (simp only: pow2_less_iff)
    then have d: "0 \<le> q - (e - 52)"
      by simp
    have "r / pow2 (e - 52) = of_int k * pow2 (q - (e - 52))"
      unfolding pow2_diff r_def by simp
    also have "\<dots> = of_int (k * 2 ^ nat (q - (e - 52)))"
      using d by (simp add: pow2_of_int)
    finally have t: "r / pow2 (e - 52) = of_int (k * 2 ^ nat (q - (e - 52)))" .
    then have m: "of_int (k * 2 ^ nat (q - (e - 52))) * pow2 (e - 52) = r"
      by (simp add: field_simps)
    have "round64 r = overflow (of_int (k * 2 ^ nat (q - (e - 52))) * pow2 (e - 52))"
    proof (rule round64_normal)
      show "pow2 e \<le> \<bar>r\<bar>" and "\<bar>r\<bar> < pow2 (e + 1)" and "- 1022 \<le> e"
        by fact+
      show "\<bar>r / pow2 (e - 52) - of_int (k * 2 ^ nat (q - (e - 52)))\<bar> < 1 / 2 \<or>
          (\<bar>r / pow2 (e - 52) - of_int (k * 2 ^ nat (q - (e - 52)))\<bar> = 1 / 2 \<and>
           even (k * 2 ^ nat (q - (e - 52))))"
        unfolding t by simp
    qed
    then show ?thesis
      unfolding m r_def .
  qed
qed

text \<open>The correctly rounded square root, from bounds on the squares.\<close>

lemma round64_sqrt:
  assumes "pow2 (2 * e) \<le> r" and "r < pow2 (2 * e + 2)" and "- 1022 \<le> e" and "1 \<le> k"
    and "((of_int k - 1 / 2) * pow2 (e - 52))\<^sup>2 < r"
    and "r < ((of_int k + 1 / 2) * pow2 (e - 52))\<^sup>2"
  shows "round64 (sqrt r) = overflow (of_int k * pow2 (e - 52))"
proof (rule round64_normal)
  have sq: "pow2 (2 * e) = (pow2 e)\<^sup>2" "pow2 (2 * e + 2) = (pow2 (e + 1))\<^sup>2"
    using pow2_add [of e e] pow2_add [of "e + 1" "e + 1"]
    by (simp_all add: power2_eq_square algebra_simps)
  have r0: "0 \<le> r"
    using assms(1) pow2_pos [of "2 * e"] by linarith
  have lo: "pow2 e \<le> sqrt r"
    using assms(1) unfolding sq by (intro real_le_rsqrt)
  have hi: "sqrt r < pow2 (e + 1)"
    using assms(2) unfolding sq by (intro real_less_lsqrt) simp_all
  show "pow2 e \<le> \<bar>sqrt r\<bar>" and "\<bar>sqrt r\<bar> < pow2 (e + 1)"
    using lo hi r0 by simp_all
  show "- 1022 \<le> e"
    by fact
  have q: "0 < pow2 (e - 52)"
    by simp
  have k: "0 < (of_int k - 1 / 2 :: real)"
    using assms(4) by simp
  have "(of_int k - 1 / 2) * pow2 (e - 52) < sqrt r"
    using assms(5) by (intro real_less_rsqrt)
  then have a: "of_int k - 1 / 2 < sqrt r / pow2 (e - 52)"
    using q by (simp add: field_simps)
  have "sqrt r < (of_int k + 1 / 2) * pow2 (e - 52)"
    using assms(6) k q by (intro real_less_lsqrt) simp_all
  then have b: "sqrt r / pow2 (e - 52) < of_int k + 1 / 2"
    using q by (simp add: field_simps)
  have "\<bar>sqrt r / pow2 (e - 52) - of_int k\<bar> < 1 / 2"
    using a b by linarith
  then show "\<bar>sqrt r / pow2 (e - 52) - of_int k\<bar> < 1 / 2 \<or>
      (\<bar>sqrt r / pow2 (e - 52) - of_int k\<bar> = 1 / 2 \<and> even k)"
    by simp
qed

lemma nonneg_simps [simp]:
  "nonneg (Fin v) \<longleftrightarrow> 0 \<le> v" "nonneg PInf" "\<not> nonneg NInf" "\<not> nonneg NaN"
  by (simp_all add: nonneg_def)

lemma rounding_Fin: "rounding Fin"
  by (simp add: rounding_def)



section \<open>Sums computed by the loops in rounded arithmetic\<close>



















section \<open>The two models agree when nothing is rounded\<close>

lemma number_simps [simp]: "number (Some v) = Fin v" "number None = NaN"
  by (simp_all add: number_def)

lemma number_eq_Fin [simp]: "number a = Fin v \<longleftrightarrow> a = Some v"
  by (cases a) simp_all













lemma raw_range_fl_exact:
  "raw_range_fl Fin (Fin mx) (Fin mn) = number (raw_range (Some mx) (Some mn))"
  by (simp add: raw_range_fl_def raw_range_def fl_not_def)

lemma scaled_fl_exact:
  assumes "rg \<noteq> Some 0"
  shows "scaled_fl Fin raw i (number mn) (number rg) lo hi = number (scaled raw i mn rg lo hi)"
  using assms
  by (cases mn; cases rg) (simp_all add: scaled_fl_def scaled_def fl_nth_def js_nth_def js_div_def)

section \<open>Runs in double arithmetic\<close>



text \<open>
  The constant array \<open>[0.1, 0.1, 0.1]\<close> (0.1 is the double \<open>3602879701896397 / 2^55\<close>) with
  \<open>[0, 1, 4]\<close>: the sum \<open>0.1 + 0.1 + 0.1\<close> is rounded up, the mean is the double after 0.1,
  the computed sum of squared deviations is \<open>3 / 2^112\<close> and not zero, and the function
  returns \<open>8.709305949236425e-17\<close>.
\<close>

lemma correlation_constant_rounded:
  "computeCorrelation_fl round64
     [3602879701896397 / 2 ^ 55, 3602879701896397 / 2 ^ 55, 3602879701896397 / 2 ^ 55] [0, 1, 4] =
   Fin (1766457106259335 / 2 ^ 104)"
proof -
  have r1: "round64 (3602879701896397 / 36028797018963968) = Fin (3602879701896397 / 36028797018963968)"
    using round64_exact [of "3602879701896397" "- 55"] by (simp add: overflow_def)
  have r2: "round64 (3602879701896397 / 18014398509481984) = Fin (3602879701896397 / 18014398509481984)"
    using round64_exact [of "3602879701896397" "- 54"] by (simp add: overflow_def)
  have r3: "round64 (10808639105689191 / 36028797018963968) = Fin (1351079888211149 / 4503599627370496)"
    using round64_normal [of "- 2" "(10808639105689191 / 36028797018963968)" "5404319552844596"] by (simp add: overflow_def)
  have r4: "round64 (1351079888211149 / 13510798882111488) = Fin (7205759403792795 / 72057594037927936)"
    using round64_normal [of "- 4" "(1351079888211149 / 13510798882111488)" "7205759403792795"] by (simp add: overflow_def)
  have r5: "round64 1 = Fin 1"
    using round64_exact [of "1" "0"] by (simp add: overflow_def)
  have r6: "round64 5 = Fin 5"
    using round64_exact [of "5" "0"] by (simp add: overflow_def)
  have r7: "round64 (5 / 3) = Fin (7505999378950827 / 4503599627370496)"
    using round64_normal [of "0" "(5 / 3)" "7505999378950827"] by (simp add: overflow_def)
  have r8: "round64 (- (1 / 72057594037927936)) = Fin (- (1 / 72057594037927936))"
    using round64_exact [of "- 1" "- 56"] by (simp add: overflow_def)
  have r9: "round64 (- (7505999378950827 / 4503599627370496)) = Fin (- (7505999378950827 / 4503599627370496))"
    using round64_exact [of "- 7505999378950827" "- 52"] by (simp add: overflow_def)
  have r10: "round64 (7505999378950827 / 324518553658426726783156020576256) = Fin (7505999378950827 / 324518553658426726783156020576256)"
    using round64_exact [of "7505999378950827" "- 108"] by (simp add: overflow_def)
  have r11: "round64 (1 / 5192296858534827628530496329220096) = Fin (1 / 5192296858534827628530496329220096)"
    using round64_exact [of "1" "- 112"] by (simp add: overflow_def)
  have r12: "round64 (56340026676810200626075283983929 / 20282409603651670423947251286016) = Fin (6254999482459023 / 2251799813685248)"
    using round64_normal [of "1" "(56340026676810200626075283983929 / 20282409603651670423947251286016)" "6254999482459023"] by (simp add: overflow_def)
  have r13: "round64 (6254999482459023 / 2251799813685248) = Fin (6254999482459023 / 2251799813685248)"
    using round64_exact [of "6254999482459023" "- 51"] by (simp add: overflow_def)
  have r14: "round64 (- (3002399751580331 / 4503599627370496)) = Fin (- (3002399751580331 / 4503599627370496))"
    using round64_exact [of "- 3002399751580331" "- 52"] by (simp add: overflow_def)
  have r15: "round64 (3002399751580331 / 324518553658426726783156020576256) = Fin (3002399751580331 / 324518553658426726783156020576256)"
    using round64_exact [of "3002399751580331" "- 108"] by (simp add: overflow_def)
  have r16: "round64 (5254199565265579 / 162259276829213363391578010288128) = Fin (5254199565265579 / 162259276829213363391578010288128)"
    using round64_exact [of "5254199565265579" "- 107"] by (simp add: overflow_def)
  have r17: "round64 (1 / 2596148429267413814265248164610048) = Fin (1 / 2596148429267413814265248164610048)"
    using round64_exact [of "1" "- 111"] by (simp add: overflow_def)
  have r18: "round64 (9014404268289633301131946069561 / 20282409603651670423947251286016) = Fin (4003199668773775 / 9007199254740992)"
    using round64_normal [of "- 2" "(9014404268289633301131946069561 / 20282409603651670423947251286016)" "8006399337547550"] by (simp add: overflow_def)
  have r19: "round64 (29023197598609867 / 9007199254740992) = Fin (7255799399652467 / 2251799813685248)"
    using round64_normal [of "1" "(29023197598609867 / 9007199254740992)" "7255799399652467"] by (simp add: overflow_def)
  have r20: "round64 (10508399130531157 / 4503599627370496) = Fin (2627099782632789 / 1125899906842624)"
    using round64_normal [of "1" "(10508399130531157 / 4503599627370496)" "5254199565265578"] by (simp add: overflow_def)
  have r21: "round64 (- (2627099782632789 / 81129638414606681695789005144064)) = Fin (- (2627099782632789 / 81129638414606681695789005144064))"
    using round64_exact [of "- 2627099782632789" "- 106"] by (simp add: overflow_def)
  have r22: "round64 (1 / 162259276829213363391578010288128) = Fin (1 / 162259276829213363391578010288128)"
    using round64_exact [of "1" "- 107"] by (simp add: overflow_def)
  have r23: "round64 (3 / 5192296858534827628530496329220096) = Fin (3 / 5192296858534827628530496329220096)"
    using round64_exact [of "3" "- 112"] by (simp add: overflow_def)
  have r24: "round64 (6901653267909247212304417918521 / 1267650600228229401496703205376) = Fin (383118718300615 / 70368744177664)"
    using round64_normal [of "2" "(6901653267909247212304417918521 / 1267650600228229401496703205376)" "6129899492809840"] by (simp add: overflow_def)
  have r25: "round64 (19515598385272147 / 2251799813685248) = Fin (4878899596318037 / 562949953421312)"
    using round64_normal [of "3" "(19515598385272147 / 2251799813685248)" "4878899596318037"] by (simp add: overflow_def)
  have r26: "round64 (14636698788954111 / 2923003274661805836407369665432566039311865085952) = Fin (13 / 2596148429267413814265248164610048)"
    using round64_normal [of "- 108" "(14636698788954111 / 2923003274661805836407369665432566039311865085952)" "7318349394477056"] by (simp add: overflow_def)
  have r27: "round64 (sqrt (13 / 2596148429267413814265248164610048)) = Fin (2870492797671419 / 40564819207303340847894502572032)"
    using round64_sqrt [of "- 54" "(13 / 2596148429267413814265248164610048)" "5740985595342838"] by (simp add: overflow_def power2_eq_square)
  have r28: "round64 (1 / 11481971190685676) = Fin (1766457106259335 / 20282409603651670423947251286016)"
    using round64_normal [of "- 54" "(1 / 11481971190685676)" "7065828425037340"] by (simp add: overflow_def)
  note rs = r1 r2 r3 r4 r5 r6 r7 r8 r9 r10 r11 r12 r13 r14 r15 r16 r17 r18 r19 r20 r21 r22 r23 r24 r25 r26 r27 r28
  show ?thesis
    using rs
    by (simp add: computeCorrelation_fl_def corr_loop_fl.simps fl_nth_def Let_def)
qed


lemma regression_rounded_small:
  "computeRegressionLine_fl round64 [\<lparr>x = 0, y = 3\<rparr>, \<lparr>x = 1, y = 5\<rparr>, \<lparr>x = 3, y = 9\<rparr>] =
     \<lparr>slope_fl = Fin 2, intercept_fl = Fin (6755399441055745 / 2251799813685248), meanY_fl = None\<rparr>"
proof -
  have r1: "round64 1 = Fin 1"
    using round64_exact [of "1" "0"] by (simp add: overflow_def)
  have r2: "round64 4 = Fin 4"
    using round64_exact [of "1" "2"] by (simp add: overflow_def)
  have r3: "round64 (4 / 3) = Fin (6004799503160661 / 4503599627370496)"
    using round64_normal [of "0" "(4 / 3)" "6004799503160661"] by (simp add: overflow_def)
  have r4: "round64 3 = Fin 3"
    using round64_exact [of "3" "0"] by (simp add: overflow_def)
  have r5: "round64 8 = Fin 8"
    using round64_exact [of "1" "3"] by (simp add: overflow_def)
  have r6: "round64 17 = Fin 17"
    using round64_exact [of "17" "0"] by (simp add: overflow_def)
  have r7: "round64 (17 / 3) = Fin (6380099472108203 / 1125899906842624)"
    using round64_normal [of "2" "(17 / 3)" "6380099472108203"] by (simp add: overflow_def)
  have r8: "round64 (- (6004799503160661 / 4503599627370496)) = Fin (- (6004799503160661 / 4503599627370496))"
    using round64_exact [of "- 6004799503160661" "- 52"] by (simp add: overflow_def)
  have r9: "round64 (- (3002399751580331 / 1125899906842624)) = Fin (- (3002399751580331 / 1125899906842624))"
    using round64_exact [of "- 3002399751580331" "- 50"] by (simp add: overflow_def)
  have r10: "round64 (18028808536579263599864140558791 / 5070602400912917605986812821504) = Fin (8006399337547549 / 2251799813685248)"
    using round64_normal [of "1" "(18028808536579263599864140558791 / 5070602400912917605986812821504)" "8006399337547549"] by (simp add: overflow_def)
  have r11: "round64 (8006399337547549 / 2251799813685248) = Fin (8006399337547549 / 2251799813685248)"
    using round64_exact [of "8006399337547549" "- 51"] by (simp add: overflow_def)
  have r12: "round64 (36057617073158521194928777956921 / 20282409603651670423947251286016) = Fin (2001599834386887 / 1125899906842624)"
    using round64_normal [of "0" "(36057617073158521194928777956921 / 20282409603651670423947251286016)" "8006399337547548"] by (simp add: overflow_def)
  have r13: "round64 (2001599834386887 / 1125899906842624) = Fin (2001599834386887 / 1125899906842624)"
    using round64_exact [of "2001599834386887" "- 50"] by (simp add: overflow_def)
  have r14: "round64 (- (1501199875790165 / 4503599627370496)) = Fin (- (1501199875790165 / 4503599627370496))"
    using round64_exact [of "- 1501199875790165" "- 52"] by (simp add: overflow_def)
  have r15: "round64 (- (750599937895083 / 1125899906842624)) = Fin (- (750599937895083 / 1125899906842624))"
    using round64_exact [of "- 750599937895083" "- 50"] by (simp add: overflow_def)
  have r16: "round64 (1126800533536204162641493258695 / 5070602400912917605986812821504) = Fin (4003199668773775 / 18014398509481984)"
    using round64_normal [of "- 3" "(1126800533536204162641493258695 / 5070602400912917605986812821504)" "8006399337547550"] by (simp add: overflow_def)
  have r17: "round64 (68054394369154167 / 18014398509481984) = Fin (8506799296144271 / 2251799813685248)"
    using round64_normal [of "1" "(68054394369154167 / 18014398509481984)" "8506799296144271"] by (simp add: overflow_def)
  have r18: "round64 (2253601067072406824083110727225 / 20282409603651670423947251286016) = Fin (8006399337547545 / 72057594037927936)"
    using round64_normal [of "- 4" "(2253601067072406824083110727225 / 20282409603651670423947251286016)" "8006399337547545"] by (simp add: overflow_def)
  have r19: "round64 (136108788738308313 / 72057594037927936) = Fin (4253399648072135 / 2251799813685248)"
    using round64_normal [of "0" "(136108788738308313 / 72057594037927936)" "8506799296144270"] by (simp add: overflow_def)
  have r20: "round64 (7505999378950827 / 4503599627370496) = Fin (7505999378950827 / 4503599627370496)"
    using round64_exact [of "7505999378950827" "- 52"] by (simp add: overflow_def)
  have r21: "round64 (3752999689475413 / 1125899906842624) = Fin (3752999689475413 / 1125899906842624)"
    using round64_exact [of "3752999689475413" "- 50"] by (simp add: overflow_def)
  have r22: "round64 (28170013338405096560037952516551 / 5070602400912917605986812821504) = Fin (3127499741229511 / 562949953421312)"
    using round64_normal [of "2" "(28170013338405096560037952516551 / 5070602400912917605986812821504)" "6254999482459022"] by (simp add: overflow_def)
  have r23: "round64 (21016798261062315 / 2251799813685248) = Fin (5254199565265579 / 562949953421312)"
    using round64_normal [of "3" "(21016798261062315 / 2251799813685248)" "5254199565265579"] by (simp add: overflow_def)
  have r24: "round64 (56340026676810200626075283983929 / 20282409603651670423947251286016) = Fin (6254999482459023 / 2251799813685248)"
    using round64_normal [of "1" "(56340026676810200626075283983929 / 20282409603651670423947251286016)" "6254999482459023"] by (simp add: overflow_def)
  have r25: "round64 (5254199565265579 / 1125899906842624) = Fin (5254199565265579 / 1125899906842624)"
    using round64_exact [of "5254199565265579" "- 50"] by (simp add: overflow_def)
  have r26: "round64 2 = Fin 2"
    using round64_exact [of "1" "1"] by (simp add: overflow_def)
  have r27: "round64 (6004799503160661 / 2251799813685248) = Fin (6004799503160661 / 2251799813685248)"
    using round64_exact [of "6004799503160661" "- 51"] by (simp add: overflow_def)
  have r28: "round64 (6755399441055745 / 2251799813685248) = Fin (6755399441055745 / 2251799813685248)"
    using round64_exact [of "6755399441055745" "- 51"] by (simp add: overflow_def)
  note rs = r1 r2 r3 r4 r5 r6 r7 r8 r9 r10 r11 r12 r13 r14 r15 r16 r17 r18 r19 r20 r21 r22 r23 r24 r25 r26 r27 r28
  show ?thesis
    using rs
    by (simp add: computeRegressionLine_fl_def regress_step_fl_def)
qed


section \<open>The empty sample\<close>

text \<open>
  C1 (as amended): for the empty sample \<open>computeRegressionLine\<close> returns slope 0 and
  intercept 0. In src/src/App\_old.jsx and src/unnamed/part\_000 the object also carries
  \<open>meanY = 0\<close>; in src/src/App.jsx and src/unnamed/part\_001 the object has no \<open>meanY\<close>
  property, and in src/src/App.jsx the mean is the component's own memo, which is 0 for
  the empty sample.
\<close>

theorem regress_empty:
  "computeRegressionLine [] = Some \<lparr>slope = 0, intercept = 0, meanY = None\<rparr> \<and>
   meanY_memo [] = Some 0 \<and>
   computeRegressionLine_old [] = Some \<lparr>slope = 0, intercept = 0, meanY = Some 0\<rparr>"
  by (simp add: computeRegressionLine_def computeRegressionLine_old_def meanY_memo_def)

text \<open>
  C1 as stated fails on src/src/App.jsx: the object returned for the empty sample is not
  \<open>{slope: 0, intercept: 0, meanY: 0}\<close>.
\<close>

theorem regress_empty_counterexample:
  "computeRegressionLine [] \<noteq> Some \<lparr>slope = 0, intercept = 0, meanY = Some 0\<rparr>"
  by (simp add: computeRegressionLine_def)

section \<open>Correlation\<close>






section \<open>Regression\<close>




section \<open>The displayed line and the residuals\<close>

text \<open>
  C2 (as amended): in every state and for every sample, the displayed slope is the
  regression slope when the mode is Fitted and 0 otherwise; the displayed intercept is
  the regression intercept when Fitted and otherwise the mean of the sample's \<open>y\<close> in
  src/src/App.jsx, src/src/App\_old.jsx and src/unnamed/part\_000, and 0 in
  src/unnamed/part\_001.
\<close>

theorem displayed_line:
  "(\<exists>r v. computeRegressionLine data = Some r \<and> render s data = Some v \<and>
      displayedSlope v = (if displayMode s = Fitted then slope r else 0) \<and>
      displayedIntercept v = (if displayMode s = Fitted then intercept r else sample_meanY data)) \<and>
   (\<exists>r v. computeRegressionLine_old data = Some r \<and> render_old s data = Some v \<and>
      meanY r = Some (sample_meanY data) \<and>
      displayedSlope v = (if displayMode s = Fitted then slope r else 0) \<and>
      displayedIntercept v = (if displayMode s = Fitted then intercept r else sample_meanY data)) \<and>
   (\<exists>r v. computeRegressionLine_old data = Some r \<and> render_part000 s data = Some v \<and>
      meanY r = Some (sample_meanY data) \<and>
      displayedSlope v = (if displayMode s = Fitted then slope r else 0) \<and>
      displayedIntercept v = (if displayMode s = Fitted then intercept r else sample_meanY data)) \<and>
   (\<exists>r v. computeRegressionLine data = Some r \<and> render_part001 s data = Some v \<and>
      displayedSlope v = (if displayMode s = Fitted then slope r else 0) \<and>
      displayedIntercept v = (if displayMode s = Fitted then intercept r else 0))"
proof (intro conjI)
  obtain r where r: "computeRegressionLine data = Some r"
    using computeRegressionLine_total by blast
  obtain r' where r': "computeRegressionLine_old data = Some r'" "meanY r' = Some (sample_meanY data)"
    using computeRegressionLine_old_total by blast
  show "\<exists>r v. computeRegressionLine data = Some r \<and> render s data = Some v \<and>
      displayedSlope v = (if displayMode s = Fitted then slope r else 0) \<and>
      displayedIntercept v = (if displayMode s = Fitted then intercept r else sample_meanY data)"
    using render_value [OF r, of s] r by (auto simp add: make_view_def displayMode_def)
  show "\<exists>r v. computeRegressionLine_old data = Some r \<and> render_old s data = Some v \<and>
      meanY r = Some (sample_meanY data) \<and>
      displayedSlope v = (if displayMode s = Fitted then slope r else 0) \<and>
      displayedIntercept v = (if displayMode s = Fitted then intercept r else sample_meanY data)"
    using render_old_value [OF r'(1), of s] r' by (auto simp add: make_view_def displayMode_def)
  show "\<exists>r v. computeRegressionLine_old data = Some r \<and> render_part000 s data = Some v \<and>
      meanY r = Some (sample_meanY data) \<and>
      displayedSlope v = (if displayMode s = Fitted then slope r else 0) \<and>
      displayedIntercept v = (if displayMode s = Fitted then intercept r else sample_meanY data)"
    using render_part000_value [OF r'(1), of s] r' by (auto simp add: make_view_def displayMode_def)
  show "\<exists>r v. computeRegressionLine data = Some r \<and> render_part001 s data = Some v \<and>
      displayedSlope v = (if displayMode s = Fitted then slope r else 0) \<and>
      displayedIntercept v = (if displayMode s = Fitted then intercept r else 0)"
    using render_part001_value [OF r, of s] r by (auto simp add: make_view_def displayMode_def)
qed

text \<open>
  C2 as stated fails on src/unnamed/part\_001: before the fit the displayed intercept is 0
  and not the mean of the sample's \<open>y\<close>.
\<close>

theorem displayed_line_counterexample:
  "map_option displayedIntercept (render_part001 (initial 30) [\<lparr>x = 0, y = 5\<rparr>]) = Some 0 \<and>
   displayMode (initial 30) = Baseline \<and>
   sample_meanY [\<lparr>x = 0, y = 5\<rparr>] = 5"
  by (simp add: render_part001_def computeCorrelation_def computeRegressionLine_def regress_step_def
      js_div_def make_view_def initial_def displayMode_def sample_meanY_def spec_mean_def)

text \<open>
  C10: whatever the state (so whatever the display mode), \<open>residualLines\<close> has one segment
  per point of the sample, in the order of the sample, from \<open>(x, y)\<close> to
  \<open>(x, slope\<cdot>x + intercept)\<close>, where the slope and the intercept are those that
  \<open>computeRegressionLine\<close> returns for the sample, which are those of the least-squares
  line of the sample (\<open>ols\<close>), not those of the displayed line.
\<close>

theorem residual_segments:
  "(\<exists>r v. computeRegressionLine data = Some r \<and> render s data = Some v \<and>
      (slope r, intercept r) = (if data = [] then (0, 0) else ols data) \<and>
      residualLines v =
        map (\<lambda>d. [\<lparr>x = x d, y = y d\<rparr>, \<lparr>x = x d, y = slope r * x d + intercept r\<rparr>]) data) \<and>
   (\<exists>r v. computeRegressionLine_old data = Some r \<and> render_old s data = Some v \<and>
      (slope r, intercept r) = (if data = [] then (0, 0) else ols data) \<and>
      residualLines v =
        map (\<lambda>d. [\<lparr>x = x d, y = y d\<rparr>, \<lparr>x = x d, y = slope r * x d + intercept r\<rparr>]) data) \<and>
   (\<exists>r v. computeRegressionLine_old data = Some r \<and> render_part000 s data = Some v \<and>
      (slope r, intercept r) = (if data = [] then (0, 0) else ols data) \<and>
      residualLines v =
        map (\<lambda>d. [\<lparr>x = x d, y = y d\<rparr>, \<lparr>x = x d, y = slope r * x d + intercept r\<rparr>]) data) \<and>
   (\<exists>r v. computeRegressionLine data = Some r \<and> render_part001 s data = Some v \<and>
      (slope r, intercept r) = (if data = [] then (0, 0) else ols data) \<and>
      residualLines v =
        map (\<lambda>d. [\<lparr>x = x d, y = y d\<rparr>, \<lparr>x = x d, y = slope r * x d + intercept r\<rparr>]) data)"
proof (intro conjI)
  obtain r where r: "computeRegressionLine data = Some r"
    using computeRegressionLine_total by blast
  obtain r' where r': "computeRegressionLine_old data = Some r'"
    using computeRegressionLine_old_total by blast
  show "\<exists>r v. computeRegressionLine data = Some r \<and> render s data = Some v \<and>
      (slope r, intercept r) = (if data = [] then (0, 0) else ols data) \<and>
      residualLines v =
        map (\<lambda>d. [\<lparr>x = x d, y = y d\<rparr>, \<lparr>x = x d, y = slope r * x d + intercept r\<rparr>]) data"
    using render_value [OF r, of s] r computeRegressionLine_ols [OF r]
    by (auto simp add: make_view_def residual_def)
  show "\<exists>r v. computeRegressionLine_old data = Some r \<and> render_old s data = Some v \<and>
      (slope r, intercept r) = (if data = [] then (0, 0) else ols data) \<and>
      residualLines v =
        map (\<lambda>d. [\<lparr>x = x d, y = y d\<rparr>, \<lparr>x = x d, y = slope r * x d + intercept r\<rparr>]) data"
    using render_old_value [OF r', of s] r' computeRegressionLine_old_ols [OF r']
    by (auto simp add: make_view_def residual_def)
  show "\<exists>r v. computeRegressionLine_old data = Some r \<and> render_part000 s data = Some v \<and>
      (slope r, intercept r) = (if data = [] then (0, 0) else ols data) \<and>
      residualLines v =
        map (\<lambda>d. [\<lparr>x = x d, y = y d\<rparr>, \<lparr>x = x d, y = slope r * x d + intercept r\<rparr>]) data"
    using render_part000_value [OF r', of s] r' computeRegressionLine_old_ols [OF r']
    by (auto simp add: make_view_def residual_def)
  show "\<exists>r v. computeRegressionLine data = Some r \<and> render_part001 s data = Some v \<and>
      (slope r, intercept r) = (if data = [] then (0, 0) else ols data) \<and>
      residualLines v =
        map (\<lambda>d. [\<lparr>x = x d, y = y d\<rparr>, \<lparr>x = x d, y = slope r * x d + intercept r\<rparr>]) data"
    using render_part001_value [OF r, of s] r computeRegressionLine_ols [OF r]
    by (auto simp add: make_view_def residual_def)
qed

text \<open>
  On the sample \<open>(0, 3), (1, 5)\<close>, before the fit: the displayed line is the horizontal
  line at the mean 4, and the segments end on the fitted line \<open>y = 2\<cdot>x + 3\<close>, on which
  the two points lie.
\<close>

theorem residual_segments_witness:
  "map_option residualLines (render (initial 200) [\<lparr>x = 0, y = 3\<rparr>, \<lparr>x = 1, y = 5\<rparr>]) =
     Some [[\<lparr>x = 0, y = 3\<rparr>, \<lparr>x = 0, y = 3\<rparr>], [\<lparr>x = 1, y = 5\<rparr>, \<lparr>x = 1, y = 5\<rparr>]] \<and>
   map_option displayedSlope (render (initial 200) [\<lparr>x = 0, y = 3\<rparr>, \<lparr>x = 1, y = 5\<rparr>]) = Some 0 \<and>
   map_option displayedIntercept (render (initial 200) [\<lparr>x = 0, y = 3\<rparr>, \<lparr>x = 1, y = 5\<rparr>]) = Some 4"
proof -
  define data where "data = [\<lparr>x = 0, y = 3\<rparr>, \<lparr>x = 1, y = (5::real)\<rparr>]"
  have line: "ols data = (2, 3)"
    by (rule ols_on_line [of data 2 3 "\<lparr>x = 0, y = 3\<rparr>" "\<lparr>x = 1, y = 5\<rparr>"])
      (simp_all add: data_def)
  obtain r v where rv: "computeRegressionLine data = Some r" "render (initial 200) data = Some v"
      "(slope r, intercept r) = (if data = [] then (0, 0) else ols data)"
      "residualLines v =
         map (\<lambda>d. [\<lparr>x = x d, y = y d\<rparr>, \<lparr>x = x d, y = slope r * x d + intercept r\<rparr>]) data"
    using residual_segments [of data "initial 200"] by blast
  have r: "slope r = 2" "intercept r = 3"
    using rv(3) line by (simp_all add: data_def)
  have "displayedSlope v = 0" and "displayedIntercept v = 4"
    using render_value [OF rv(1), of "initial 200"] rv(2)
    by (auto simp add: make_view_def initial_def sample_meanY_def spec_mean_def data_def)
  then show ?thesis
    using rv(2,4) r unfolding data_def [symmetric] by (simp add: data_def)
qed

section \<open>The transitions\<close>

text \<open>
  C9: in every state, a change of the correlation or of the sample size leaves the mode
  Baseline; the click on the fit button leaves it Fitted and does not change the
  parameters; a step from Baseline to Fitted is a click on the fit button; a Fitted state
  stays Fitted along events that change no parameter; and after any run from the initial
  state the mode is Fitted exactly when the last event was the click on the fit button.
\<close>

theorem display_mode_transitions:
  "displayMode (handle (CorrChange v) s) = Baseline \<and>
   displayMode (handle (SizeChange n) s) = Baseline \<and>
   displayMode (handle FitClick s) = Fitted \<and>
   corr (handle FitClick s) = corr s \<and> sampleSize (handle FitClick s) = sampleSize s \<and>
   (displayMode s1 = Baseline \<and> displayMode (handle e s1) = Fitted \<longrightarrow> e = FitClick) \<and>
   (displayMode s2 = Fitted \<and> (\<forall>e \<in> set es. \<not> is_param_change e) \<longrightarrow>
      displayMode (run es s2) = Fitted) \<and>
   displayMode (run es' (initial n0)) =
     (if es' \<noteq> [] \<and> last es' = FitClick then Fitted else Baseline)"
proof -
  have keep: "displayMode (run es s2) = Fitted"
    if "displayMode s2 = Fitted" and "\<forall>e \<in> set es. \<not> is_param_change e"
  proof (cases "es = []")
    case True
    then show ?thesis using that by (simp add: run_def)
  next
    case False
    then have "last es \<in> set es" by simp
    then have "\<not> is_param_change (last es)"
      using that(2) by blast
    then have "last es = FitClick"
      by (cases "last es") (simp_all add: is_param_change_def)
    then show ?thesis using False by (simp add: displayMode_run)
  qed
  have init: "displayMode (initial n0) = Baseline"
    by (simp add: displayMode_def initial_def)
  show ?thesis
    using keep by (simp add: displayMode_handle displayMode_run init) (simp add: displayMode_def)
qed

theorem display_mode_transitions_witness:
  "displayMode (initial 200) = Baseline \<and>
   displayMode (handle FitClick (initial 200)) = Fitted \<and>
   \<not> is_param_change FitClick \<and>
   displayMode (run [FitClick, FitClick] (handle FitClick (initial 200))) = Fitted \<and>
   displayMode (run [CorrChange (9 / 10), SizeChange 50, FitClick] (initial 200)) = Fitted \<and>
   displayMode (handle (SizeChange 60) (handle FitClick (initial 200))) = Baseline"
  using display_mode_transitions [of "9 / 10" "handle FitClick (initial 200)" 60 "initial 200"
      FitClick "handle FitClick (initial 200)" "[FitClick, FitClick]"
      "[CorrChange (9 / 10), SizeChange 50, FitClick]" 200]
  by (simp add: is_param_change_def displayMode_def initial_def)

text \<open>
  C3 (as amended): the handlers store the parsed slider value as it is, without clamping
  or validating it; the stored parameters stay within \<open>[-1, 1]\<close> and \<open>[10, 200]\<close> along
  every run whose events carry values within these bounds.
\<close>

theorem parameters_stored:
  "corr (handle (CorrChange v) s) = v \<and>
   sampleSize (handle (SizeChange n) s) = n \<and>
   (params_in_range s \<and> (\<forall>e \<in> set es. event_in_range e) \<longrightarrow> params_in_range (run es s))"
  using run_in_range [of s es] by simp

theorem parameters_stored_witness:
  "params_in_range (initial 200) \<and>
   event_in_range (CorrChange (1 / 2)) \<and> event_in_range (SizeChange 50) \<and>
   event_in_range FitClick \<and>
   params_in_range (run [CorrChange (1 / 2), SizeChange 50, FitClick] (initial 200))"
  using parameters_stored [of "1 / 2" "initial 200" 50 "[CorrChange (1 / 2), SizeChange 50, FitClick]"]
  by (simp add: params_in_range_def event_in_range_def initial_def)

text \<open>
  C3 as stated fails: a value outside the bounds is stored as it is.
\<close>

theorem parameters_stored_counterexample:
  "corr (handle (CorrChange 5) (initial 200)) = 5 \<and>
   sampleSize (handle (SizeChange 1000) (initial 200)) = 1000 \<and>
   \<not> params_in_range (handle (CorrChange 5) (initial 200)) \<and>
   \<not> params_in_range (handle (SizeChange 1000) (initial 200))"
  by (simp add: initial_def params_in_range_def)

section \<open>The generated sample\<close>




text \<open>
  C5: \<open>generateCorrelatedData(0, 1, 0, 10)\<close>, on a random source that supplies four
  non-zero draws, divides by no zero (the zero raw range gives the divisor 1) and returns
  exactly one point, with both coordinates equal to \<open>rangeMin = 0\<close>.
\<close>

theorem generate_one:
  assumes "wf_tape tape" and "4 \<le> draws_left tape"
  shows "(\<exists>tape'. generateCorrelatedData 0 1 0 10 tape = Some ([\<lparr>x = 0, y = 0\<rparr>], tape')) \<and>
         raw_range (Some v) (Some v) = Some 1"
proof -
  obtain xs ys tape' where len: "length xs = nat 1" "length ys = nat 1"
    and gen: "generateCorrelatedData 0 1 0 10 tape =
      Some (map (\<lambda>(a, b). \<lparr>x = rescale xs 0 10 a, y = rescale ys 0 10 b\<rparr>) (zip xs ys), tape')"
    using generate_value [of 0 tape 1 0 10] assms by auto
  obtain a where a: "xs = [a]"
    using len(1) by (cases xs) auto
  obtain b where b: "ys = [b]"
    using len(2) by (cases ys) auto
  have "generateCorrelatedData 0 1 0 10 tape = Some ([\<lparr>x = 0, y = 0\<rparr>], tape')"
    unfolding gen a b by (simp add: rescale_def)
  then show ?thesis
    by (simp add: raw_range_def)
qed

theorem generate_one_witness:
  "wf_tape [0, 1 / 2, 0, 1 / 4, 1 / 2, 1 / 2] \<and> 4 \<le> draws_left [0, 1 / 2, 0, 1 / 4, 1 / 2, 1 / 2] \<and>
   (\<exists>tape'. generateCorrelatedData 0 1 0 10 [0, 1 / 2, 0, 1 / 4, 1 / 2, 1 / 2] =
      Some ([\<lparr>x = 0, y = 0\<rparr>], tape'))"
  using generate_one [of "[0, 1 / 2, 0, 1 / 4, 1 / 2, 1 / 2]"]
  by (simp add: wf_tape_def draws_left_def)

end
